theory Spec2Isabelle
  imports Complex_Main "HOL-Library.Word" "HOL-Library.Signed_Division" "HOL-Library.Sublist"
begin

section \<open>Common types\<close>

text \<open>
  A \<^verbatim>\<open>double\<close> (ROOT's \<^verbatim>\<open>Double_t\<close>, and a \<^verbatim>\<open>Float_t\<close> once widened) is
  modelled by the real number it denotes, and a decimal literal of the source by the same
  decimal: the functions below only compare, take absolute values and maxima, and multiply.
  NaN and the infinities are outside the model.  An \<^verbatim>\<open>Int_t\<close> that is only compared
  is an \<^typ>\<open>int\<close>; the PDG id, on which the source does arithmetic, is a 32-bit word.
\<close>

type_synonym double = real
type_synonym Int_t = int

text \<open>
  The ways a call can end without a value: a failed \<^verbatim>\<open>assert\<close>, a thrown
  \<^verbatim>\<open>cms::Exception\<close> (with the category it is thrown with), the
  \<^verbatim>\<open>std::length_error\<close> of \<^verbatim>\<open>std::vector::reserve\<close>, an integer division by
  zero and a \<^verbatim>\<open>std::vector\<close> read past its end.
\<close>

datatype error =
    AssertionFailure
  | CmsException string
  | LengthError
  | DivisionByZero
  | OutOfRange

section \<open>Lepton types (leptonTypes.h)\<close>

text \<open>
  \<^verbatim>\<open>leptonTypes.h\<close> is included by the correction code but its text is not part of the
  sources at hand.  The two enumerators it declares are therefore taken as parameters: a
  value of \<open>leptonTypes\<close> gives the integer behind \<^verbatim>\<open>kElectron\<close> and the one behind
  \<^verbatim>\<open>kMuon\<close>.  Enumerators of one enumeration that are declared without initialisers are
  distinct, which is what \<open>distinct_types\<close> says.
\<close>

record leptonTypes =
  kElectron :: int
  kMuon :: int

definition distinct_types :: "leptonTypes \<Rightarrow> bool" where
  "distinct_types K = (kElectron K \<noteq> kMuon K)"

definition recognized :: "leptonTypes \<Rightarrow> int \<Rightarrow> bool" where
  "recognized K lepton_type = (lepton_type = kElectron K \<or> lepton_type = kMuon K)"

definition K0 :: leptonTypes where
  "K0 = \<lparr> kElectron = 0, kMuon = 1 \<rparr>"

section \<open>Trigger efficiency (data\_to\_MC\_corrections.cc)\<close>

text \<open>The two-lepton overload, lines 13 to 23.\<close>

definition sf_triggerEff_2l ::
  "leptonTypes \<Rightarrow> int \<Rightarrow> double \<Rightarrow> double \<Rightarrow> int \<Rightarrow> double \<Rightarrow> double \<Rightarrow> double" where
  "sf_triggerEff_2l K lepton1_type lepton1_pt lepton1_eta lepton2_type lepton2_pt lepton2_eta =
     (if lepton1_type = kElectron K \<and> lepton2_type = kElectron K then
        (if max lepton1_pt lepton2_pt > 40 then 0.99 else 0.95)
      else if lepton1_type = kMuon K \<and> lepton2_type = kMuon K then 0.98
      else 1.00)"

text \<open>The one-lepton overload, lines 241 to 251.\<close>

definition sf_triggerEff_1l :: "leptonTypes \<Rightarrow> int \<Rightarrow> double \<Rightarrow> double \<Rightarrow> double" where
  "sf_triggerEff_1l K lepton1_type lepton1_pt lepton1_eta =
     (if lepton1_type = kElectron K then
        (if lepton1_pt > 40 then 0.99 else 0.95)
      else if lepton1_type = kMuon K then 0.98
      else 1.00)"

section \<open>Lookup tables (lutAuxFunctions.h)\<close>

text \<open>
  \<^verbatim>\<open>loadTH1\<close>, \<^verbatim>\<open>loadTH2\<close>, \<^verbatim>\<open>get_sf_from_TH1\<close> and \<^verbatim>\<open>get_sf_from_TH2\<close> are
  declared in \<^verbatim>\<open>lutAuxFunctions.h\<close>, which is not among the sources; they are parameters
  of the model.  Each function-local \<^verbatim>\<open>static\<close> pointer of the source is loaded on first
  use and never assigned again, so it is a field of the environment: \<open>None\<close> is the null
  pointer (the \<^verbatim>\<open>assert\<close> that follows the load then fails), \<open>Some h\<close> a histogram.
  The type \<open>'h\<close> of histograms is left open.
\<close>

record 'h luts =
  get_sf_from_TH1 :: "'h \<Rightarrow> double \<Rightarrow> double"
  get_sf_from_TH2 :: "'h \<Rightarrow> double \<Rightarrow> double \<Rightarrow> double"
  electron_lut_id_loose :: "'h option"
  electron_lut_iso :: "'h option"
  electron_lut_convVeto :: "'h option"
  electron_lut_id_tight_barrel :: "'h option"
  electron_lut_id_tight_endcap :: "'h option"
  muon_lut_id_loose :: "'h option"
  muon_lut_iso_barrel :: "'h option"
  muon_lut_iso_endcap :: "'h option"
  muon_lut_ip :: "'h option"
  muon_lut_id_tight_barrel :: "'h option"
  muon_lut_id_tight_endcap :: "'h option"

text \<open>\<^verbatim>\<open>assert(lut)\<close> on a pointer, followed by the code that uses it.\<close>

definition assert_lut :: "'h option \<Rightarrow> ('h \<Rightarrow> error + 'a) \<Rightarrow> error + 'a" where
  "assert_lut lut k = (case lut of None \<Rightarrow> Inl AssertionFailure | Some h \<Rightarrow> k h)"

text \<open>Sequencing of two fallible computations: the first failure ends the call.\<close>

definition bind_err :: "error + 'a \<Rightarrow> ('a \<Rightarrow> error + 'b) \<Rightarrow> error + 'b" where
  "bind_err m k = (case m of Inl e \<Rightarrow> Inl e | Inr x \<Rightarrow> k x)"

definition all_loaded :: "'h luts \<Rightarrow> bool" where
  "all_loaded E =
     (electron_lut_id_loose E \<noteq> None \<and> electron_lut_iso E \<noteq> None \<and>
      electron_lut_convVeto E \<noteq> None \<and> electron_lut_id_tight_barrel E \<noteq> None \<and>
      electron_lut_id_tight_endcap E \<noteq> None \<and> muon_lut_id_loose E \<noteq> None \<and>
      muon_lut_iso_barrel E \<noteq> None \<and> muon_lut_iso_endcap E \<noteq> None \<and>
      muon_lut_ip E \<noteq> None \<and> muon_lut_id_tight_barrel E \<noteq> None \<and>
      muon_lut_id_tight_endcap E \<noteq> None)"

section \<open>Identification and isolation scale factors (data\_to\_MC\_corrections.cc)\<close>

subsection \<open>Electrons, lines 26 to 95\<close>

definition sf_electronID_and_Iso_loose :: "'h luts \<Rightarrow> double \<Rightarrow> double \<Rightarrow> error + double" where
  "sf_electronID_and_Iso_loose E electron_pt electron_eta =
     assert_lut (electron_lut_id_loose E) (\<lambda>lut_id_loose.
       let sf_id_loose = get_sf_from_TH2 E lut_id_loose electron_pt electron_eta in
       assert_lut (electron_lut_iso E) (\<lambda>lut_iso.
         let sf_iso = get_sf_from_TH2 E lut_iso electron_pt electron_eta in
         Inr (sf_id_loose * sf_iso)))"

definition sf_electronID_and_Iso_tight_to_loose ::
  "'h luts \<Rightarrow> double \<Rightarrow> double \<Rightarrow> error + double" where
  "sf_electronID_and_Iso_tight_to_loose E electron_pt electron_eta =
     assert_lut (electron_lut_convVeto E) (\<lambda>lut_convVeto.
       let sf_convVeto = get_sf_from_TH2 E lut_convVeto electron_pt electron_eta in
       bind_err
         (if \<bar>electron_eta\<bar> < 1.479 then
            assert_lut (electron_lut_id_tight_barrel E) (\<lambda>lut_id_tight_barrel.
              Inr (get_sf_from_TH1 E lut_id_tight_barrel electron_pt))
          else
            assert_lut (electron_lut_id_tight_endcap E) (\<lambda>lut_id_tight_endcap.
              Inr (get_sf_from_TH1 E lut_id_tight_endcap electron_pt)))
         (\<lambda>sf_id_tight. Inr (sf_convVeto * sf_id_tight)))"

definition sf_electronID_and_Iso_tight :: "'h luts \<Rightarrow> double \<Rightarrow> double \<Rightarrow> error + double" where
  "sf_electronID_and_Iso_tight E electron_pt electron_eta =
     bind_err (sf_electronID_and_Iso_loose E electron_pt electron_eta) (\<lambda>sf_loose.
     bind_err (sf_electronID_and_Iso_tight_to_loose E electron_pt electron_eta) (\<lambda>sf_tight_to_loose.
       Inr (sf_loose * sf_tight_to_loose)))"

subsection \<open>Muons, lines 99 to 180\<close>

definition sf_muonID_and_Iso_loose :: "'h luts \<Rightarrow> double \<Rightarrow> double \<Rightarrow> error + double" where
  "sf_muonID_and_Iso_loose E muon_pt muon_eta =
     assert_lut (muon_lut_id_loose E) (\<lambda>lut_id_loose.
       let sf_id_loose = get_sf_from_TH2 E lut_id_loose muon_pt muon_eta in
       bind_err
         (if \<bar>muon_eta\<bar> < 1.2 then
            assert_lut (muon_lut_iso_barrel E) (\<lambda>lut_iso_barrel.
              Inr (get_sf_from_TH1 E lut_iso_barrel muon_pt))
          else
            assert_lut (muon_lut_iso_endcap E) (\<lambda>lut_iso_endcap.
              Inr (get_sf_from_TH1 E lut_iso_endcap muon_pt)))
         (\<lambda>sf_iso.
            assert_lut (muon_lut_ip E) (\<lambda>lut_ip.
              let sf_ip = get_sf_from_TH1 E lut_ip muon_eta in
              Inr (sf_id_loose * sf_iso * sf_ip))))"

definition sf_muonID_and_Iso_tight_to_loose :: "'h luts \<Rightarrow> double \<Rightarrow> double \<Rightarrow> error + double" where
  "sf_muonID_and_Iso_tight_to_loose E muon_pt muon_eta =
     bind_err
       (if \<bar>muon_eta\<bar> < 1.2 then
          assert_lut (muon_lut_id_tight_barrel E) (\<lambda>lut_id_tight_barrel.
            Inr (get_sf_from_TH1 E lut_id_tight_barrel muon_pt))
        else
          assert_lut (muon_lut_id_tight_endcap E) (\<lambda>lut_id_tight_endcap.
            Inr (get_sf_from_TH1 E lut_id_tight_endcap muon_pt)))
       (\<lambda>sf_id_tight. Inr sf_id_tight)"

definition sf_muonID_and_Iso_tight :: "'h luts \<Rightarrow> double \<Rightarrow> double \<Rightarrow> error + double" where
  "sf_muonID_and_Iso_tight E muon_pt muon_eta =
     bind_err (sf_muonID_and_Iso_loose E muon_pt muon_eta) (\<lambda>sf_loose.
     bind_err (sf_muonID_and_Iso_tight_to_loose E muon_pt muon_eta) (\<lambda>sf_tight_to_loose.
       Inr (sf_loose * sf_tight_to_loose)))"

subsection \<open>Per-type dispatch: \<^verbatim>\<open>if kElectron .. else if kMuon .. else assert(0)\<close>\<close>

definition lepton_sf_loose :: "leptonTypes \<Rightarrow> 'h luts \<Rightarrow> int \<Rightarrow> double \<Rightarrow> double \<Rightarrow> error + double" where
  "lepton_sf_loose K E lepton_type lepton_pt lepton_eta =
     (if lepton_type = kElectron K then sf_electronID_and_Iso_loose E lepton_pt lepton_eta
      else if lepton_type = kMuon K then sf_muonID_and_Iso_loose E lepton_pt lepton_eta
      else Inl AssertionFailure)"

definition lepton_sf_tight_to_loose ::
  "leptonTypes \<Rightarrow> 'h luts \<Rightarrow> int \<Rightarrow> double \<Rightarrow> double \<Rightarrow> error + double" where
  "lepton_sf_tight_to_loose K E lepton_type lepton_pt lepton_eta =
     (if lepton_type = kElectron K then sf_electronID_and_Iso_tight_to_loose E lepton_pt lepton_eta
      else if lepton_type = kMuon K then sf_muonID_and_Iso_tight_to_loose E lepton_pt lepton_eta
      else Inl AssertionFailure)"

subsection \<open>Two-lepton overloads, lines 184 to 233\<close>

definition sf_leptonID_and_Iso_loose_2l ::
  "leptonTypes \<Rightarrow> 'h luts \<Rightarrow> int \<Rightarrow> double \<Rightarrow> double \<Rightarrow> int \<Rightarrow> double \<Rightarrow> double \<Rightarrow> error + double" where
  "sf_leptonID_and_Iso_loose_2l K E lepton1_type lepton1_pt lepton1_eta lepton2_type lepton2_pt lepton2_eta =
     bind_err (lepton_sf_loose K E lepton1_type lepton1_pt lepton1_eta) (\<lambda>lepton1_sf.
     bind_err (lepton_sf_loose K E lepton2_type lepton2_pt lepton2_eta) (\<lambda>lepton2_sf.
       Inr (lepton1_sf * lepton2_sf)))"

definition sf_leptonID_and_Iso_fakeable_to_loose_2l ::
  "int \<Rightarrow> double \<Rightarrow> double \<Rightarrow> int \<Rightarrow> double \<Rightarrow> double \<Rightarrow> double" where
  "sf_leptonID_and_Iso_fakeable_to_loose_2l lepton1_type lepton1_pt lepton1_eta lepton2_type lepton2_pt lepton2_eta = 1"

definition sf_leptonID_and_Iso_fakeable_2l ::
  "leptonTypes \<Rightarrow> 'h luts \<Rightarrow> int \<Rightarrow> double \<Rightarrow> double \<Rightarrow> int \<Rightarrow> double \<Rightarrow> double \<Rightarrow> error + double" where
  "sf_leptonID_and_Iso_fakeable_2l K E lepton1_type lepton1_pt lepton1_eta lepton2_type lepton2_pt lepton2_eta =
     bind_err (sf_leptonID_and_Iso_loose_2l K E lepton1_type lepton1_pt lepton1_eta lepton2_type lepton2_pt lepton2_eta)
       (\<lambda>sf_loose.
          let sf_fakeable_to_loose =
                sf_leptonID_and_Iso_fakeable_to_loose_2l lepton1_type lepton1_pt lepton1_eta lepton2_type lepton2_pt lepton2_eta
          in Inr (sf_loose * sf_fakeable_to_loose))"

definition sf_leptonID_and_Iso_tight_to_loose_2l ::
  "leptonTypes \<Rightarrow> 'h luts \<Rightarrow> int \<Rightarrow> double \<Rightarrow> double \<Rightarrow> int \<Rightarrow> double \<Rightarrow> double \<Rightarrow> error + double" where
  "sf_leptonID_and_Iso_tight_to_loose_2l K E lepton1_type lepton1_pt lepton1_eta lepton2_type lepton2_pt lepton2_eta =
     bind_err (lepton_sf_tight_to_loose K E lepton1_type lepton1_pt lepton1_eta) (\<lambda>lepton1_sf.
     bind_err (lepton_sf_tight_to_loose K E lepton2_type lepton2_pt lepton2_eta) (\<lambda>lepton2_sf.
       Inr (lepton1_sf * lepton2_sf)))"

definition sf_leptonID_and_Iso_tight_2l ::
  "leptonTypes \<Rightarrow> 'h luts \<Rightarrow> int \<Rightarrow> double \<Rightarrow> double \<Rightarrow> int \<Rightarrow> double \<Rightarrow> double \<Rightarrow> error + double" where
  "sf_leptonID_and_Iso_tight_2l K E lepton1_type lepton1_pt lepton1_eta lepton2_type lepton2_pt lepton2_eta =
     bind_err (sf_leptonID_and_Iso_loose_2l K E lepton1_type lepton1_pt lepton1_eta lepton2_type lepton2_pt lepton2_eta)
       (\<lambda>sf_loose.
     bind_err (sf_leptonID_and_Iso_tight_to_loose_2l K E lepton1_type lepton1_pt lepton1_eta lepton2_type lepton2_pt lepton2_eta)
       (\<lambda>sf_tight_to_loose. Inr (sf_loose * sf_tight_to_loose)))"

subsection \<open>One-lepton overloads, lines 254 to 289\<close>

definition sf_leptonID_and_Iso_loose_1l ::
  "leptonTypes \<Rightarrow> 'h luts \<Rightarrow> int \<Rightarrow> double \<Rightarrow> double \<Rightarrow> error + double" where
  "sf_leptonID_and_Iso_loose_1l K E lepton1_type lepton1_pt lepton1_eta =
     bind_err (lepton_sf_loose K E lepton1_type lepton1_pt lepton1_eta) (\<lambda>sf. Inr sf)"

definition sf_leptonID_and_Iso_fakeable_to_loose_1l :: "int \<Rightarrow> double \<Rightarrow> double \<Rightarrow> double" where
  "sf_leptonID_and_Iso_fakeable_to_loose_1l lepton1_type lepton1_pt lepton1_eta = 1"

definition sf_leptonID_and_Iso_fakeable_1l ::
  "leptonTypes \<Rightarrow> 'h luts \<Rightarrow> int \<Rightarrow> double \<Rightarrow> double \<Rightarrow> error + double" where
  "sf_leptonID_and_Iso_fakeable_1l K E lepton1_type lepton1_pt lepton1_eta =
     bind_err (sf_leptonID_and_Iso_loose_1l K E lepton1_type lepton1_pt lepton1_eta) (\<lambda>sf_loose.
       let sf_fakeable_to_loose = sf_leptonID_and_Iso_fakeable_to_loose_1l lepton1_type lepton1_pt lepton1_eta
       in Inr (sf_loose * sf_fakeable_to_loose))"

definition sf_leptonID_and_Iso_tight_to_loose_1l ::
  "leptonTypes \<Rightarrow> 'h luts \<Rightarrow> int \<Rightarrow> double \<Rightarrow> double \<Rightarrow> error + double" where
  "sf_leptonID_and_Iso_tight_to_loose_1l K E lepton1_type lepton1_pt lepton1_eta =
     bind_err (lepton_sf_tight_to_loose K E lepton1_type lepton1_pt lepton1_eta) (\<lambda>sf. Inr sf)"

definition sf_leptonID_and_Iso_tight_1l ::
  "leptonTypes \<Rightarrow> 'h luts \<Rightarrow> int \<Rightarrow> double \<Rightarrow> double \<Rightarrow> error + double" where
  "sf_leptonID_and_Iso_tight_1l K E lepton1_type lepton1_pt lepton1_eta =
     bind_err (sf_leptonID_and_Iso_loose_1l K E lepton1_type lepton1_pt lepton1_eta) (\<lambda>sf_loose.
     bind_err (sf_leptonID_and_Iso_tight_to_loose_1l K E lepton1_type lepton1_pt lepton1_eta)
       (\<lambda>sf_tight_to_loose. Inr (sf_loose * sf_tight_to_loose)))"

section \<open>Charge misidentification (backgroundEstimation.cc)\<close>

definition prob_chargeMisId :: "leptonTypes \<Rightarrow> int \<Rightarrow> double \<Rightarrow> double \<Rightarrow> error + double" where
  "prob_chargeMisId K lepton_type lepton_pt lepton_eta =
     (let prob = 1 in
      if lepton_type = kElectron K then
        (let abs_lepton_eta = \<bar>lepton_eta\<bar> in
         if abs_lepton_eta \<ge> 0 \<and> abs_lepton_eta < 1.479 then
           (if lepton_pt \<ge> 10 \<and> lepton_pt < 25 then Inr 0.0301
            else if lepton_pt \<ge> 25 \<and> lepton_pt < 50 then Inr 0.0287
            else if lepton_pt \<ge> 50 then Inr 0.0293
            else Inr prob)
         else if abs_lepton_eta \<ge> 1.479 \<and> abs_lepton_eta < 2.5 then
           (if lepton_pt \<ge> 10 \<and> lepton_pt < 25 then Inr 0.1728
            else if lepton_pt \<ge> 25 \<and> lepton_pt < 50 then Inr 0.1974
            else if lepton_pt \<ge> 50 then Inr 0.3457
            else Inr prob)
         else Inr prob)
      else if lepton_type = kMuon K then Inr 1
      else Inl AssertionFailure)"

section \<open>Hadronic-tau tight selector (RecoHadTauSelectorTight.cc)\<close>

text \<open>
  Data members lose their trailing underscore, which a constant's name cannot end with;
  a member that several classes share is written with its class, as in \<open>RecoHadTau.pt\<close>.
  \<^verbatim>\<open>RecoHadTau.h\<close> and \<^verbatim>\<open>RecoHadTauSelectorTight.h\<close> are not among the sources:
  the record holds the members the selector reads, working-point flags as integers and
  raw scores as doubles, as the reader's arrays have them.
\<close>

record RecoHadTau =
  pt :: double
  absEta :: double
  dz :: double
  decayModeFinding :: Int_t
  id_mva_dR03 :: Int_t
  raw_mva_dR03 :: double
  id_mva_dR05 :: Int_t
  raw_mva_dR05 :: double
  id_cut_dR03 :: Int_t
  raw_cut_dR03 :: double
  id_cut_dR05 :: Int_t
  raw_cut_dR05 :: double
  antiElectron :: Int_t
  antiMuon :: Int_t

record RecoHadTauSelectorTight =
  min_pt :: double
  max_absEta :: double
  max_dz :: double
  min_decayModeFinding :: Int_t
  min_id_mva_dR03 :: Int_t
  min_raw_mva_dR03 :: double
  min_id_mva_dR05 :: Int_t
  min_raw_mva_dR05 :: double
  min_id_cut_dR03 :: Int_t
  max_raw_cut_dR03 :: double
  min_id_cut_dR05 :: Int_t
  max_raw_cut_dR05 :: double
  min_antiElectron :: Int_t
  min_antiMuon :: Int_t

text \<open>The default constructor, lines 5 to 20.\<close>

definition RecoHadTauSelectorTight_ctor :: RecoHadTauSelectorTight where
  "RecoHadTauSelectorTight_ctor =
     \<lparr> RecoHadTauSelectorTight.min_pt = 20,
       max_absEta = 2.3,
       max_dz = 0.2,
       min_decayModeFinding = 1,
       min_id_mva_dR03 = -1000,
       min_raw_mva_dR03 = -1000000,
       min_id_mva_dR05 = -1000,
       min_raw_mva_dR05 = -1000000,
       min_id_cut_dR03 = -1000,
       max_raw_cut_dR03 = 1000000,
       min_id_cut_dR05 = 1,
       max_raw_cut_dR05 = 1000000,
       min_antiElectron = -1000,
       min_antiMuon = -1000 \<rparr>"

text \<open>\<^verbatim>\<open>operator()\<close>, lines 22 to 41.\<close>

definition RecoHadTauSelectorTight_call :: "RecoHadTauSelectorTight \<Rightarrow> RecoHadTau \<Rightarrow> bool" where
  "RecoHadTauSelectorTight_call this hadTau =
     (if RecoHadTau.pt hadTau \<ge> RecoHadTauSelectorTight.min_pt this \<and>
         RecoHadTau.absEta hadTau \<le> RecoHadTauSelectorTight.max_absEta this \<and>
         \<bar>RecoHadTau.dz hadTau\<bar> \<le> RecoHadTauSelectorTight.max_dz this \<and>
         decayModeFinding hadTau \<ge> min_decayModeFinding this \<and>
         id_mva_dR03 hadTau \<ge> min_id_mva_dR03 this \<and>
         raw_mva_dR03 hadTau \<ge> min_raw_mva_dR03 this \<and>
         id_mva_dR05 hadTau \<ge> min_id_mva_dR05 this \<and>
         raw_mva_dR05 hadTau \<ge> min_raw_mva_dR05 this \<and>
         id_cut_dR03 hadTau \<ge> min_id_cut_dR03 this \<and>
         raw_cut_dR03 hadTau \<le> max_raw_cut_dR03 this \<and>
         id_cut_dR05 hadTau \<ge> min_id_cut_dR05 this \<and>
         raw_cut_dR05 hadTau \<le> max_raw_cut_dR05 this \<and>
         antiElectron hadTau \<ge> min_antiElectron this \<and>
         antiMuon hadTau \<ge> min_antiMuon this
      then True
      else False)"

text \<open>
  The object of the specification's boundary test: every member exactly at the default
  threshold it is compared with.
\<close>

definition boundary_hadTau :: RecoHadTau where
  "boundary_hadTau =
     \<lparr> RecoHadTau.pt = 20,
       absEta = 2.3,
       dz = 0.2,
       decayModeFinding = 1,
       id_mva_dR03 = -1000,
       raw_mva_dR03 = -1000000,
       id_mva_dR05 = -1000,
       raw_mva_dR05 = -1000000,
       id_cut_dR03 = -1000,
       raw_cut_dR03 = 1000000,
       id_cut_dR05 = 1,
       raw_cut_dR05 = 1000000,
       antiElectron = -1000,
       antiMuon = -1000 \<rparr>"

section \<open>Fakeable muon selector (RecoMuonSelectorFakeable.h, RecoMuonSelectorFakeable.cc)\<close>

text \<open>
  \<^verbatim>\<open>RecoMuon\<close> derives from the \<^verbatim>\<open>RecoLepton\<close> of \<^verbatim>\<open>interface/RecoLepton.h\<close>,
  which is not among the sources.  The record holds the members the selector reads and the
  ones \<^verbatim>\<open>RecoMuon.h\<close> declares (with \<^verbatim>\<open>DPT_DIV_PT_FLAG\<close> at 0 there is no
  \<^verbatim>\<open>dpt_div_pt_\<close>).
\<close>

record RecoMuon =
  pt :: double
  absEta :: double
  dxy :: double
  dz :: double
  relIso :: double
  sip3d :: double
  mvaRawTTH :: double
  jetPtRatio :: double
  jetBtagCSV :: double
  tightCharge :: Int_t
  passesLooseIdPOG :: Int_t
  passesMediumIdPOG :: Int_t
  segmentCompatibility :: double

text \<open>\<^verbatim>\<open>RecoMuon::is_electron\<close> and \<^verbatim>\<open>RecoMuon::is_muon\<close>, RecoMuon.h lines 47 to 55.\<close>

definition RecoMuon_is_electron :: "RecoMuon \<Rightarrow> bool" where
  "RecoMuon_is_electron this = False"

definition RecoMuon_is_muon :: "RecoMuon \<Rightarrow> bool" where
  "RecoMuon_is_muon this = True"

record RecoMuonSelectorFakeable =
  min_pt :: double
  max_absEta :: double
  max_dxy :: double
  max_dz :: double
  max_relIso :: double
  max_sip3d :: double
  apply_looseIdPOG :: bool
  binning_mvaTTH :: "double list"
  min_jetPtRatio :: "double list"
  max_jetBtagCSV :: "double list"
  apply_mediumIdPOG :: bool
  apply_tightCharge :: bool

text \<open>The default constructor, lines 5 to 18.\<close>

definition RecoMuonSelectorFakeable_ctor :: RecoMuonSelectorFakeable where
  "RecoMuonSelectorFakeable_ctor =
     \<lparr> RecoMuonSelectorFakeable.min_pt = 10,
       max_absEta = 2.4,
       max_dxy = 0.05,
       max_dz = 0.1,
       max_relIso = 0.4,
       max_sip3d = 8,
       apply_looseIdPOG = True,
       binning_mvaTTH = [0.75],
       min_jetPtRatio = [0.30, -1000],
       max_jetBtagCSV = [0.605, 0.89],
       apply_mediumIdPOG = False,
       apply_tightCharge = False \<rparr>"

text \<open>
  \<^verbatim>\<open>std::vector::operator[]\<close>: a read inside the vector gives the element, a read
  outside it has no defined result and is an error of the model.
\<close>

definition vector_at :: "'a list \<Rightarrow> int \<Rightarrow> error + 'a" where
  "vector_at v i = (if 0 \<le> i \<and> i < int (length v) then Inr (v ! nat i) else Inl OutOfRange)"

text \<open>
  \<^verbatim>\<open>operator()\<close>, lines 20 to 39.  An \<^verbatim>\<open>Int_t\<close> flag used as a condition holds when it
  is not zero.  The vectors are read only after the cuts before them have passed, as
  \<^verbatim>\<open>&&\<close> evaluates.
\<close>

definition RecoMuonSelectorFakeable_call :: "RecoMuonSelectorFakeable \<Rightarrow> RecoMuon \<Rightarrow> error + bool" where
  "RecoMuonSelectorFakeable_call this muon =
     (if RecoMuon.pt muon \<ge> RecoMuonSelectorFakeable.min_pt this \<and>
         RecoMuon.absEta muon \<le> RecoMuonSelectorFakeable.max_absEta this \<and>
         \<bar>RecoMuon.dxy muon\<bar> \<le> max_dxy this \<and>
         \<bar>RecoMuon.dz muon\<bar> \<le> RecoMuonSelectorFakeable.max_dz this \<and>
         relIso muon \<le> max_relIso this \<and>
         RecoMuon.sip3d muon \<le> max_sip3d this \<and>
         (passesLooseIdPOG muon \<noteq> 0 \<or> \<not> apply_looseIdPOG this) \<and>
         (passesMediumIdPOG muon \<noteq> 0 \<or> \<not> apply_mediumIdPOG this) \<and>
         (tightCharge muon \<ge> 2 \<or> \<not> apply_tightCharge this)
      then
        bind_err (vector_at (binning_mvaTTH this) 0) (\<lambda>binning_mvaTTH_0.
          let idxBin = (if mvaRawTTH muon \<ge> binning_mvaTTH_0 then 0 else 1) in
          if \<not> (idxBin \<ge> 0 \<and> idxBin \<le> 1) then Inl AssertionFailure
          else
            bind_err (vector_at (min_jetPtRatio this) idxBin) (\<lambda>min_jetPtRatio_idxBin.
              if jetPtRatio muon \<ge> min_jetPtRatio_idxBin then
                bind_err (vector_at (max_jetBtagCSV this) idxBin) (\<lambda>max_jetBtagCSV_idxBin.
                  if jetBtagCSV muon \<le> max_jetBtagCSV_idxBin then Inr True else Inr False)
              else Inr False))
      else Inr False)"

section \<open>Collection selector (ParticleCollectionSelector.h)\<close>

text \<open>
  The input is a vector of pointers to constant objects.  A pointer is a value of an open
  type \<open>'p\<close>, and \<open>deref\<close> is the store, giving the object a pointer points to; the
  operator reads the store and returns pointers.  The \<^verbatim>\<open>for\<close> loop walks the input
  from \<^verbatim>\<open>begin()\<close> to \<^verbatim>\<open>end()\<close> and appends to \<^verbatim>\<open>selParticles\<close>.
\<close>

fun ParticleCollectionSelector_loop ::
  "('obj \<Rightarrow> bool) \<Rightarrow> ('p \<Rightarrow> 'obj) \<Rightarrow> 'p list \<Rightarrow> 'p list \<Rightarrow> 'p list" where
  "ParticleCollectionSelector_loop selector deref [] selParticles = selParticles"
| "ParticleCollectionSelector_loop selector deref (particle # rest) selParticles =
     ParticleCollectionSelector_loop selector deref rest
       (if selector (deref particle) then selParticles @ [particle] else selParticles)"

definition ParticleCollectionSelector_call ::
  "('obj \<Rightarrow> bool) \<Rightarrow> ('p \<Rightarrow> 'obj) \<Rightarrow> 'p list \<Rightarrow> 'p list" where
  "ParticleCollectionSelector_call selector deref particles =
     ParticleCollectionSelector_loop selector deref particles []"

section \<open>Generic reconstructed lepton (bin/RecoLepton.cc)\<close>

text \<open>
  \<^verbatim>\<open>std::abs\<close> on a 32-bit \<^verbatim>\<open>Int_t\<close>; negation wraps around, so the most negative
  value is its own absolute value.
\<close>

definition abs_Int :: "32 word \<Rightarrow> 32 word" where
  "abs_Int x = (if sint x < 0 then - x else x)"

text \<open>The four-vector \<^verbatim>\<open>p4\<close> is kept as the four numbers it is built from.\<close>

record RecoLepton =
  dxy :: double
  dz :: double
  rel_iso :: double
  sip3d :: double
  mass :: double
  pt :: double
  eta :: double
  mva_tth :: double
  phi :: double
  pdg_id :: "32 word"
  med_mu_id :: Int_t
  ele_mva_id :: Int_t
  lost_hits :: Int_t
  loose_id :: Int_t
  tight_charge :: Int_t
  pass_conv_veto :: Int_t
  p4 :: "double \<times> double \<times> double \<times> double"

text \<open>The constructor, lines 5 to 39: every argument is stored, whatever its value.\<close>

definition RecoLepton_ctor ::
  "double \<Rightarrow> double \<Rightarrow> double \<Rightarrow> double \<Rightarrow> double \<Rightarrow> double \<Rightarrow> double \<Rightarrow> double \<Rightarrow> double \<Rightarrow>
   32 word \<Rightarrow> Int_t \<Rightarrow> Int_t \<Rightarrow> Int_t \<Rightarrow> Int_t \<Rightarrow> Int_t \<Rightarrow> Int_t \<Rightarrow> RecoLepton" where
  "RecoLepton_ctor dxy' dz' rel_iso' sip3d' mass' pt' eta' mva_tth' phi' pdg_id' med_mu_id'
       ele_mva_id' lost_hits' loose_id' tight_charge' pass_conv_veto' =
     \<lparr> RecoLepton.dxy = dxy',
       dz = dz',
       rel_iso = rel_iso',
       sip3d = sip3d',
       mass = mass',
       pt = pt',
       eta = eta',
       mva_tth = mva_tth',
       phi = phi',
       pdg_id = pdg_id',
       med_mu_id = med_mu_id',
       ele_mva_id = ele_mva_id',
       lost_hits = lost_hits',
       loose_id = loose_id',
       tight_charge = tight_charge',
       pass_conv_veto = pass_conv_veto',
       p4 = (pt', eta', phi', mass') \<rparr>"

definition RecoLepton_is_electron :: "RecoLepton \<Rightarrow> bool" where
  "RecoLepton_is_electron this = (abs_Int (pdg_id this) = 11)"

definition RecoLepton_is_muon :: "RecoLepton \<Rightarrow> bool" where
  "RecoLepton_is_muon this = (abs_Int (pdg_id this) = 13)"

text \<open>
  A lepton instance of the hierarchy, as far as the sources have it: a generic lepton, or
  a \<^verbatim>\<open>RecoMuon\<close>; each answers with the member functions of its own class.
\<close>

datatype lepton = Generic RecoLepton | Muon RecoMuon

fun is_electron :: "lepton \<Rightarrow> bool" where
  "is_electron (Generic l) = RecoLepton_is_electron l"
| "is_electron (Muon m) = RecoMuon_is_electron m"

fun is_muon :: "lepton \<Rightarrow> bool" where
  "is_muon (Generic l) = RecoLepton_is_muon l"
| "is_muon (Muon m) = RecoMuon_is_muon m"

section \<open>Generator-level lepton (GenLepton.cc)\<close>

text \<open>
  \<^verbatim>\<open>/\<close> on two \<^verbatim>\<open>Int_t\<close>: the quotient truncated towards zero.  The caller checks the
  divisor.
\<close>

definition div_Int :: "32 word \<Rightarrow> 32 word \<Rightarrow> 32 word" where
  "div_Int a b = word_of_int (sint a sdiv sint b)"

text \<open>
  \<^verbatim>\<open>GenLepton.h\<close> and \<^verbatim>\<open>GenParticle.h\<close> are not among the sources: the record holds
  the four arguments handed to the base class, and the two members the constructor sets.
\<close>

record GenLepton =
  pt :: double
  eta :: double
  phi :: double
  mass :: double
  pdgId :: "32 word"
  charge :: "32 word"

text \<open>The constructor, lines 5 to 14; a zero divisor ends it.\<close>

definition GenLepton_ctor ::
  "double \<Rightarrow> double \<Rightarrow> double \<Rightarrow> double \<Rightarrow> 32 word \<Rightarrow> error + GenLepton" where
  "GenLepton_ctor pt' eta' phi' mass' pdgId' =
     (if abs_Int pdgId' = 0 then Inl DivisionByZero
      else Inr \<lparr> GenLepton.pt = pt', eta = eta', phi = phi', mass = mass', pdgId = pdgId',
                 charge = div_Int (- pdgId') (abs_Int pdgId') \<rparr>)"

section \<open>Hadronic-tau reader (RecoHadTauReader.cc)\<close>

text \<open>
  The reader after \<^verbatim>\<open>setBranchAddresses\<close>: the count the tree has filled in, and one
  array per attribute, each allocated with \<^verbatim>\<open>max_nHadTaus_\<close> entries.  An array is the
  function from an index to the entry stored there.  \<^verbatim>\<open>RecoHadTauReader.h\<close> is not
  among the sources; the bound and the count are \<^verbatim>\<open>Int_t\<close>.
\<close>

record RecoHadTauReader =
  max_nHadTaus :: Int_t
  nHadTaus :: Int_t
  hadTau_pt :: "nat \<Rightarrow> double"
  hadTau_eta :: "nat \<Rightarrow> double"
  hadTau_phi :: "nat \<Rightarrow> double"
  hadTau_mass :: "nat \<Rightarrow> double"
  hadTau_charge :: "nat \<Rightarrow> Int_t"
  hadTau_dxy :: "nat \<Rightarrow> double"
  hadTau_dz :: "nat \<Rightarrow> double"
  hadTau_idDecayMode :: "nat \<Rightarrow> Int_t"
  hadTau_idDecayModeNewDMs :: "nat \<Rightarrow> Int_t"
  hadTau_idMVA_dR03 :: "nat \<Rightarrow> Int_t"
  hadTau_rawMVA_dR03 :: "nat \<Rightarrow> double"
  hadTau_idMVA_dR05 :: "nat \<Rightarrow> Int_t"
  hadTau_rawMVA_dR05 :: "nat \<Rightarrow> double"
  hadTau_idCombIso_dR03 :: "nat \<Rightarrow> Int_t"
  hadTau_rawCombIso_dR03 :: "nat \<Rightarrow> double"
  hadTau_idCombIso_dR05 :: "nat \<Rightarrow> Int_t"
  hadTau_rawCombIso_dR05 :: "nat \<Rightarrow> double"
  hadTau_idAgainstElec :: "nat \<Rightarrow> Int_t"
  hadTau_idAgainstMu :: "nat \<Rightarrow> Int_t"

text \<open>Both constructors, lines 10 to 12 and 36 to 38, set the capacity to 32.\<close>

definition constructed :: "RecoHadTauReader \<Rightarrow> bool" where
  "constructed this = (max_nHadTaus this = 32)"

text \<open>
  The constructor of \<^verbatim>\<open>RecoHadTau\<close> is not among the sources either.  It is a parameter
  of \<open>read\<close>, taking the nineteen arguments of the call in lines 186 to 204.
\<close>

type_synonym 'tau RecoHadTau_ctor =
  "double \<Rightarrow> double \<Rightarrow> double \<Rightarrow> double \<Rightarrow> Int_t \<Rightarrow> double \<Rightarrow> double \<Rightarrow> Int_t \<Rightarrow> Int_t \<Rightarrow>
   Int_t \<Rightarrow> double \<Rightarrow> Int_t \<Rightarrow> double \<Rightarrow> Int_t \<Rightarrow> double \<Rightarrow> Int_t \<Rightarrow> double \<Rightarrow> Int_t \<Rightarrow> Int_t \<Rightarrow> 'tau"

definition RecoHadTauReader_entry :: "'tau RecoHadTau_ctor \<Rightarrow> RecoHadTauReader \<Rightarrow> nat \<Rightarrow> 'tau" where
  "RecoHadTauReader_entry mk gInstance idxHadTau =
     mk (hadTau_pt gInstance idxHadTau)
        (hadTau_eta gInstance idxHadTau)
        (hadTau_phi gInstance idxHadTau)
        (hadTau_mass gInstance idxHadTau)
        (hadTau_charge gInstance idxHadTau)
        (hadTau_dxy gInstance idxHadTau)
        (hadTau_dz gInstance idxHadTau)
        (hadTau_idDecayMode gInstance idxHadTau)
        (hadTau_idDecayModeNewDMs gInstance idxHadTau)
        (hadTau_idMVA_dR03 gInstance idxHadTau)
        (hadTau_rawMVA_dR03 gInstance idxHadTau)
        (hadTau_idMVA_dR05 gInstance idxHadTau)
        (hadTau_rawMVA_dR05 gInstance idxHadTau)
        (hadTau_idCombIso_dR03 gInstance idxHadTau)
        (hadTau_rawCombIso_dR03 gInstance idxHadTau)
        (hadTau_idCombIso_dR05 gInstance idxHadTau)
        (hadTau_rawCombIso_dR05 gInstance idxHadTau)
        (hadTau_idAgainstElec gInstance idxHadTau)
        (hadTau_idAgainstMu gInstance idxHadTau)"

text \<open>The \<^verbatim>\<open>for\<close> loop of lines 184 to 205, with \<^verbatim>\<open>push_back\<close> as an append.\<close>

function RecoHadTauReader_read_loop ::
  "'tau RecoHadTau_ctor \<Rightarrow> RecoHadTauReader \<Rightarrow> Int_t \<Rightarrow> Int_t \<Rightarrow> 'tau list \<Rightarrow> 'tau list" where
  "RecoHadTauReader_read_loop mk gInstance idxHadTau nHadTaus' hadTaus =
     (if idxHadTau < nHadTaus' then
        RecoHadTauReader_read_loop mk gInstance (idxHadTau + 1) nHadTaus'
          (hadTaus @ [RecoHadTauReader_entry mk gInstance (nat idxHadTau)])
      else hadTaus)"
  by pat_completeness auto
termination
  by (relation "measure (\<lambda>(mk, gInstance, idxHadTau, nHadTaus', hadTaus). nat (nHadTaus' - idxHadTau))") auto

declare RecoHadTauReader_read_loop.simps [simp del]

text \<open>
  \<^verbatim>\<open>std::vector::reserve\<close> takes an unsigned size: a negative \<^verbatim>\<open>Int_t\<close> converts to a
  size above \<^verbatim>\<open>max_size()\<close>, for which \<^verbatim>\<open>reserve\<close> throws \<^verbatim>\<open>std::length_error\<close>.
\<close>

definition vector_reserve :: "Int_t \<Rightarrow> error + unit" where
  "vector_reserve n = (if n < 0 then Inl LengthError else Inr ())"

text \<open>
  \<^verbatim>\<open>read\<close>, lines 173 to 207.  \<open>gInstance\<close> is the entry of \<^verbatim>\<open>instances_\<close> for the
  reader's branch name, \<open>None\<close> when that pointer is null.
\<close>

definition RecoHadTauReader_read ::
  "'tau RecoHadTau_ctor \<Rightarrow> RecoHadTauReader \<Rightarrow> RecoHadTauReader option \<Rightarrow> error + 'tau list" where
  "RecoHadTauReader_read mk this instance =
     (case instance of
        None \<Rightarrow> Inl AssertionFailure
      | Some gInstance \<Rightarrow>
          let nHadTaus' = nHadTaus gInstance in
          if nHadTaus' > max_nHadTaus this then Inl (CmsException ''RecoHadTauReader'')
          else
            bind_err (vector_reserve nHadTaus') (\<lambda>_.
              Inr (RecoHadTauReader_read_loop mk gInstance 0 nHadTaus' [])))"

section \<open>Example objects\<close>

text \<open>
  An environment in which every table is loaded: histograms are numbers, and a lookup
  returns the histogram's number whatever the bin.
\<close>

definition E0 :: "nat luts" where
  "E0 = \<lparr> get_sf_from_TH1 = (\<lambda>h x. real h),
          get_sf_from_TH2 = (\<lambda>h x y. real h),
          electron_lut_id_loose = Some 2,
          electron_lut_iso = Some 3,
          electron_lut_convVeto = Some 5,
          electron_lut_id_tight_barrel = Some 7,
          electron_lut_id_tight_endcap = Some 11,
          muon_lut_id_loose = Some 13,
          muon_lut_iso_barrel = Some 17,
          muon_lut_iso_endcap = Some 19,
          muon_lut_ip = Some 23,
          muon_lut_id_tight_barrel = Some 29,
          muon_lut_id_tight_endcap = Some 31 \<rparr>"

text \<open>
  A muon with every member at the default threshold it is compared with, and a
  multivariate score of exactly 0.75.
\<close>

definition boundary_muon :: RecoMuon where
  "boundary_muon =
     \<lparr> RecoMuon.pt = 10,
       absEta = 2.4,
       dxy = 0.05,
       dz = -0.1,
       relIso = 0.4,
       sip3d = 8,
       mvaRawTTH = 0.75,
       jetPtRatio = 0.30,
       jetBtagCSV = 0.605,
       tightCharge = 0,
       passesLooseIdPOG = 1,
       passesMediumIdPOG = 0,
       segmentCompatibility = 0 \<rparr>"

text \<open>A generic lepton constructed with the PDG id of a tau lepton.\<close>

definition tau_lepton :: RecoLepton where
  "tau_lepton = RecoLepton_ctor 0 0 0 0 1.777 25 0 0 0 15 0 0 0 0 0 0"

text \<open>
  A reader whose tree holds \<open>n\<close> hadronic taus, and a stand-in for the constructor of
  \<^verbatim>\<open>RecoHadTau\<close> that keeps the transverse momentum, the charge and the anti-muon flag.
\<close>

definition example_ctor :: "(double \<times> Int_t \<times> Int_t) RecoHadTau_ctor" where
  "example_ctor = (\<lambda>pt' eta' phi' mass' charge' dxy' dz' decayModeFinding' decayModeFindingNew'
      id_mva_dR03' raw_mva_dR03' id_mva_dR05' raw_mva_dR05' id_cut_dR03' raw_cut_dR03'
      id_cut_dR05' raw_cut_dR05' antiElectron' antiMuon'. (pt', charge', antiMuon'))"

definition example_reader :: "Int_t \<Rightarrow> RecoHadTauReader" where
  "example_reader n =
     \<lparr> max_nHadTaus = 32,
       nHadTaus = n,
       hadTau_pt = (\<lambda>i. 20 + real i),
       hadTau_eta = (\<lambda>i. 0),
       hadTau_phi = (\<lambda>i. 0),
       hadTau_mass = (\<lambda>i. 0),
       hadTau_charge = (\<lambda>i. if even i then 1 else -1),
       hadTau_dxy = (\<lambda>i. 0),
       hadTau_dz = (\<lambda>i. 0),
       hadTau_idDecayMode = (\<lambda>i. 1),
       hadTau_idDecayModeNewDMs = (\<lambda>i. 1),
       hadTau_idMVA_dR03 = (\<lambda>i. 0),
       hadTau_rawMVA_dR03 = (\<lambda>i. 0),
       hadTau_idMVA_dR05 = (\<lambda>i. 0),
       hadTau_rawMVA_dR05 = (\<lambda>i. 0),
       hadTau_idCombIso_dR03 = (\<lambda>i. 0),
       hadTau_rawCombIso_dR03 = (\<lambda>i. 0),
       hadTau_idCombIso_dR05 = (\<lambda>i. 0),
       hadTau_rawCombIso_dR05 = (\<lambda>i. 0),
       hadTau_idAgainstElec = (\<lambda>i. 0),
       hadTau_idAgainstMu = (\<lambda>i. int i) \<rparr>"

section \<open>Auxiliary facts\<close>

lemma bind_err_Inr_iff:
  "bind_err m k = Inr y \<longleftrightarrow> (\<exists>x. m = Inr x \<and> k x = Inr y)"
  by (cases m) (simp_all add: bind_err_def)

lemma bind_err_Inl [simp]: "bind_err (Inl e) k = Inl e"
  by (simp add: bind_err_def)

lemma bind_err_Inr [simp]: "bind_err (Inr x) k = k x"
  by (simp add: bind_err_def)

lemma assert_lut_Some [simp]: "assert_lut (Some h) k = k h"
  by (simp add: assert_lut_def)

lemma assert_lut_None [simp]: "assert_lut None k = Inl AssertionFailure"
  by (simp add: assert_lut_def)

text \<open>Every failure of the engine is a failed assertion.\<close>

lemma sf_electron_loose_cases:
  "sf_electronID_and_Iso_loose E p e = Inl AssertionFailure \<or> (\<exists>v. sf_electronID_and_Iso_loose E p e = Inr v)"
  by (cases "electron_lut_id_loose E"; cases "electron_lut_iso E")
     (simp_all add: sf_electronID_and_Iso_loose_def)

lemma sf_electron_t2l_cases:
  "sf_electronID_and_Iso_tight_to_loose E p e = Inl AssertionFailure \<or>
   (\<exists>v. sf_electronID_and_Iso_tight_to_loose E p e = Inr v)"
  by (cases "electron_lut_convVeto E"; cases "electron_lut_id_tight_barrel E";
      cases "electron_lut_id_tight_endcap E")
     (simp_all add: sf_electronID_and_Iso_tight_to_loose_def)

lemma sf_muon_loose_cases:
  "sf_muonID_and_Iso_loose E p e = Inl AssertionFailure \<or> (\<exists>v. sf_muonID_and_Iso_loose E p e = Inr v)"
  by (cases "muon_lut_id_loose E"; cases "muon_lut_iso_barrel E"; cases "muon_lut_iso_endcap E";
      cases "muon_lut_ip E")
     (simp_all add: sf_muonID_and_Iso_loose_def)

lemma sf_muon_t2l_cases:
  "sf_muonID_and_Iso_tight_to_loose E p e = Inl AssertionFailure \<or>
   (\<exists>v. sf_muonID_and_Iso_tight_to_loose E p e = Inr v)"
  by (cases "muon_lut_id_tight_barrel E"; cases "muon_lut_id_tight_endcap E")
     (simp_all add: sf_muonID_and_Iso_tight_to_loose_def)

lemma lepton_sf_loose_cases:
  "lepton_sf_loose K E t p e = Inl AssertionFailure \<or> (\<exists>v. lepton_sf_loose K E t p e = Inr v)"
  using sf_electron_loose_cases [of E p e] sf_muon_loose_cases [of E p e]
  by (simp add: lepton_sf_loose_def)

lemma lepton_sf_t2l_cases:
  "lepton_sf_tight_to_loose K E t p e = Inl AssertionFailure \<or>
   (\<exists>v. lepton_sf_tight_to_loose K E t p e = Inr v)"
  using sf_electron_t2l_cases [of E p e] sf_muon_t2l_cases [of E p e]
  by (simp add: lepton_sf_tight_to_loose_def)

lemma sf_electron_loose_loaded:
  assumes "all_loaded E"
  shows "\<exists>v. sf_electronID_and_Iso_loose E p e = Inr v"
proof -
  from assms obtain a b where "electron_lut_id_loose E = Some a" "electron_lut_iso E = Some b"
    unfolding all_loaded_def by blast
  then show ?thesis
    by (simp add: sf_electronID_and_Iso_loose_def)
qed

lemma sf_electron_t2l_loaded:
  assumes "all_loaded E"
  shows "\<exists>v. sf_electronID_and_Iso_tight_to_loose E p e = Inr v"
proof -
  from assms obtain a b c where "electron_lut_convVeto E = Some a"
    "electron_lut_id_tight_barrel E = Some b" "electron_lut_id_tight_endcap E = Some c"
    unfolding all_loaded_def by blast
  then show ?thesis
    by (simp add: sf_electronID_and_Iso_tight_to_loose_def)
qed

lemma sf_muon_loose_loaded:
  assumes "all_loaded E"
  shows "\<exists>v. sf_muonID_and_Iso_loose E p e = Inr v"
proof -
  from assms obtain a b c d where "muon_lut_id_loose E = Some a"
    "muon_lut_iso_barrel E = Some b" "muon_lut_iso_endcap E = Some c" "muon_lut_ip E = Some d"
    unfolding all_loaded_def by blast
  then show ?thesis
    by (simp add: sf_muonID_and_Iso_loose_def)
qed

lemma sf_muon_t2l_loaded:
  assumes "all_loaded E"
  shows "\<exists>v. sf_muonID_and_Iso_tight_to_loose E p e = Inr v"
proof -
  from assms obtain a b where "muon_lut_id_tight_barrel E = Some a"
    "muon_lut_id_tight_endcap E = Some b"
    unfolding all_loaded_def by blast
  then show ?thesis
    by (simp add: sf_muonID_and_Iso_tight_to_loose_def)
qed

lemma lepton_sf_loose_loaded:
  assumes "all_loaded E" "recognized K t"
  shows "\<exists>v. lepton_sf_loose K E t p e = Inr v"
  using assms(2) sf_electron_loose_loaded [OF assms(1), of p e] sf_muon_loose_loaded [OF assms(1), of p e]
  by (auto simp add: recognized_def lepton_sf_loose_def)

lemma lepton_sf_t2l_loaded:
  assumes "all_loaded E" "recognized K t"
  shows "\<exists>v. lepton_sf_tight_to_loose K E t p e = Inr v"
  using assms(2) sf_electron_t2l_loaded [OF assms(1), of p e] sf_muon_t2l_loaded [OF assms(1), of p e]
  by (auto simp add: recognized_def lepton_sf_tight_to_loose_def)

lemma lepton_sf_loose_unrecognized:
  "\<not> recognized K t \<Longrightarrow> lepton_sf_loose K E t p e = Inl AssertionFailure"
  by (simp add: recognized_def lepton_sf_loose_def)

lemma lepton_sf_t2l_unrecognized:
  "\<not> recognized K t \<Longrightarrow> lepton_sf_tight_to_loose K E t p e = Inl AssertionFailure"
  by (simp add: recognized_def lepton_sf_tight_to_loose_def)

lemma loose_2l_unrecognized:
  assumes "\<not> recognized K t1 \<or> \<not> recognized K t2"
  shows "sf_leptonID_and_Iso_loose_2l K E t1 p1 e1 t2 p2 e2 = Inl AssertionFailure"
  using assms lepton_sf_loose_cases [of K E t1 p1 e1]
  by (auto simp add: sf_leptonID_and_Iso_loose_2l_def lepton_sf_loose_unrecognized)

lemma t2l_2l_unrecognized:
  assumes "\<not> recognized K t1 \<or> \<not> recognized K t2"
  shows "sf_leptonID_and_Iso_tight_to_loose_2l K E t1 p1 e1 t2 p2 e2 = Inl AssertionFailure"
  using assms lepton_sf_t2l_cases [of K E t1 p1 e1]
  by (auto simp add: sf_leptonID_and_Iso_tight_to_loose_2l_def lepton_sf_t2l_unrecognized)

lemma ParticleCollectionSelector_loop_filter:
  "ParticleCollectionSelector_loop selector deref particles selParticles =
     selParticles @ filter (\<lambda>p. selector (deref p)) particles"
  by (induction particles arbitrary: selParticles) simp_all

lemma abs_Int_eq_11: "abs_Int x = 11 \<longleftrightarrow> x = 11 \<or> x = -11"
proof (cases "sint x < 0")
  case True
  then have "x \<noteq> 11" by auto
  moreover have "- x = 11 \<longleftrightarrow> x = -11" by (metis minus_equation_iff)
  ultimately show ?thesis using True by (simp add: abs_Int_def)
next
  case False
  then have "x \<noteq> -11" by auto
  then show ?thesis using False by (simp add: abs_Int_def)
qed

lemma abs_Int_eq_13: "abs_Int x = 13 \<longleftrightarrow> x = 13 \<or> x = -13"
proof (cases "sint x < 0")
  case True
  then have "x \<noteq> 13" by auto
  moreover have "- x = 13 \<longleftrightarrow> x = -13" by (metis minus_equation_iff)
  ultimately show ?thesis using True by (simp add: abs_Int_def)
next
  case False
  then have "x \<noteq> -13" by auto
  then show ?thesis using False by (simp add: abs_Int_def)
qed

lemma upt_nat_step:
  assumes "0 \<le> i" "i < n"
  shows "[nat i ..< nat n] = nat i # [nat (i + 1) ..< nat n]"
proof -
  have a: "nat i < nat n" using assms by linarith
  have b: "nat (i + 1) = Suc (nat i)" using assms by linarith
  show ?thesis
    unfolding b using a by (rule upt_conv_Cons)
qed

lemma RecoHadTauReader_read_loop_map:
  "0 \<le> idxHadTau \<Longrightarrow>
   RecoHadTauReader_read_loop mk gInstance idxHadTau n hadTaus =
     hadTaus @ map (RecoHadTauReader_entry mk gInstance) [nat idxHadTau ..< nat n]"
proof (induction mk gInstance idxHadTau n hadTaus rule: RecoHadTauReader_read_loop.induct)
  case (1 mk gInstance idxHadTau n hadTaus)
  show ?case
  proof (cases "idxHadTau < n")
    case True
    have step: "[nat idxHadTau ..< nat n] = nat idxHadTau # [nat (idxHadTau + 1) ..< nat n]"
      using "1.prems" True by (rule upt_nat_step)
    have "RecoHadTauReader_read_loop mk gInstance idxHadTau n hadTaus =
          RecoHadTauReader_read_loop mk gInstance (idxHadTau + 1) n
            (hadTaus @ [RecoHadTauReader_entry mk gInstance (nat idxHadTau)])"
      using True by (subst RecoHadTauReader_read_loop.simps) simp
    also have "\<dots> = (hadTaus @ [RecoHadTauReader_entry mk gInstance (nat idxHadTau)]) @
          map (RecoHadTauReader_entry mk gInstance) [nat (idxHadTau + 1) ..< nat n]"
      using "1.IH" [OF True] "1.prems" by simp
    finally show ?thesis
      by (simp add: step)
  next
    case False
    then show ?thesis
      using "1.prems" by (subst RecoHadTauReader_read_loop.simps) simp
  qed
qed

lemma sdiv_self_int: "b \<noteq> 0 \<Longrightarrow> (b::int) sdiv b = 1"
  by (simp add: signed_divide_int_def sgn_mult_self_eq)

lemma sdiv_neg_self_int: "0 < a \<Longrightarrow> (- a :: int) sdiv a = - 1"
  by (simp add: signed_divide_int_def)

lemma abs_Int_eq_0: "abs_Int x = 0 \<longleftrightarrow> x = 0"
  by (simp add: abs_Int_def)

lemma sint_minus_pos:
  fixes p :: "32 word"
  assumes "0 < sint p"
  shows "sint (- p) = - sint p"
proof -
  have "sint p < 2 ^ 31"
    using sint_lt [of p] by simp
  then have "- (2 ^ 31) \<le> - sint p" "- sint p < 2 ^ 31"
    using assms by simp_all
  then have "signed_take_bit 31 (- sint p) = - sint p"
    by (simp add: signed_take_bit_int_eq_self)
  then show ?thesis
    by (simp add: sint_word_minus)
qed

lemma charge_of_positive:
  fixes p :: "32 word"
  assumes "0 < sint p"
  shows "div_Int (- p) (abs_Int p) = - 1"
proof -
  have "abs_Int p = p"
    using assms by (simp add: abs_Int_def)
  moreover have "sint (- p) sdiv sint p = - 1"
    unfolding sint_minus_pos [OF assms] using assms by (rule sdiv_neg_self_int)
  ultimately show ?thesis
    by (simp add: div_Int_def)
qed

lemma charge_of_negative:
  fixes p :: "32 word"
  assumes "sint p < 0"
  shows "div_Int (- p) (abs_Int p) = 1"
proof -
  have "p \<noteq> 0"
    using assms by auto
  then have "- p \<noteq> 0"
    by simp
  then have "sint (- p) \<noteq> 0"
    by (simp add: signed_eq_0_iff)
  then have "sint (- p) sdiv sint (- p) = 1"
    by (rule sdiv_self_int)
  moreover have "abs_Int p = - p"
    using assms by (simp add: abs_Int_def)
  ultimately show ?thesis
    by (simp add: div_Int_def)
qed

section \<open>The correction engine\<close>

text \<open>
  C1.  Tiered composition of the identification and isolation scale factors.  In the one-
  and in the two-lepton form, the tight scale factor returns a value exactly when the loose
  and the tight-to-loose scale factors do, and the value is their product; the fakeable
  scale factor is the loose one times the fakeable-to-loose factor, which is 1.0 for all
  arguments.  For recognized lepton types and loaded tables all of them return values.
\<close>

theorem sf_leptonID_and_Iso_tiered:
  "(sf_leptonID_and_Iso_tight_1l K E t1 p1 e1 = Inr x \<longleftrightarrow>
      (\<exists>l r. sf_leptonID_and_Iso_loose_1l K E t1 p1 e1 = Inr l \<and>
             sf_leptonID_and_Iso_tight_to_loose_1l K E t1 p1 e1 = Inr r \<and> x = l * r)) \<and>
   (sf_leptonID_and_Iso_fakeable_1l K E t1 p1 e1 = Inr x \<longleftrightarrow>
      (\<exists>l. sf_leptonID_and_Iso_loose_1l K E t1 p1 e1 = Inr l \<and>
           x = l * sf_leptonID_and_Iso_fakeable_to_loose_1l t1 p1 e1)) \<and>
   sf_leptonID_and_Iso_fakeable_to_loose_1l t1 p1 e1 = 1.0 \<and>
   (sf_leptonID_and_Iso_tight_2l K E t1 p1 e1 t2 p2 e2 = Inr x \<longleftrightarrow>
      (\<exists>l r. sf_leptonID_and_Iso_loose_2l K E t1 p1 e1 t2 p2 e2 = Inr l \<and>
             sf_leptonID_and_Iso_tight_to_loose_2l K E t1 p1 e1 t2 p2 e2 = Inr r \<and> x = l * r)) \<and>
   (sf_leptonID_and_Iso_fakeable_2l K E t1 p1 e1 t2 p2 e2 = Inr x \<longleftrightarrow>
      (\<exists>l. sf_leptonID_and_Iso_loose_2l K E t1 p1 e1 t2 p2 e2 = Inr l \<and>
           x = l * sf_leptonID_and_Iso_fakeable_to_loose_2l t1 p1 e1 t2 p2 e2)) \<and>
   sf_leptonID_and_Iso_fakeable_to_loose_2l t1 p1 e1 t2 p2 e2 = 1.0 \<and>
   (all_loaded E \<and> recognized K t1 \<and> recognized K t2 \<longrightarrow>
      (\<exists>l1 r1 l2 r2.
         sf_leptonID_and_Iso_loose_1l K E t1 p1 e1 = Inr l1 \<and>
         sf_leptonID_and_Iso_tight_to_loose_1l K E t1 p1 e1 = Inr r1 \<and>
         sf_leptonID_and_Iso_tight_1l K E t1 p1 e1 = Inr (l1 * r1) \<and>
         sf_leptonID_and_Iso_fakeable_1l K E t1 p1 e1 = Inr (l1 * 1.0) \<and>
         sf_leptonID_and_Iso_loose_2l K E t1 p1 e1 t2 p2 e2 = Inr l2 \<and>
         sf_leptonID_and_Iso_tight_to_loose_2l K E t1 p1 e1 t2 p2 e2 = Inr r2 \<and>
         sf_leptonID_and_Iso_tight_2l K E t1 p1 e1 t2 p2 e2 = Inr (l2 * r2) \<and>
         sf_leptonID_and_Iso_fakeable_2l K E t1 p1 e1 t2 p2 e2 = Inr (l2 * 1.0)))"
proof -
  have a: "sf_leptonID_and_Iso_tight_1l K E t1 p1 e1 = Inr x \<longleftrightarrow>
      (\<exists>l r. sf_leptonID_and_Iso_loose_1l K E t1 p1 e1 = Inr l \<and>
             sf_leptonID_and_Iso_tight_to_loose_1l K E t1 p1 e1 = Inr r \<and> x = l * r)"
    by (auto simp add: sf_leptonID_and_Iso_tight_1l_def bind_err_Inr_iff)
  have b: "sf_leptonID_and_Iso_fakeable_1l K E t1 p1 e1 = Inr x \<longleftrightarrow>
      (\<exists>l. sf_leptonID_and_Iso_loose_1l K E t1 p1 e1 = Inr l \<and>
           x = l * sf_leptonID_and_Iso_fakeable_to_loose_1l t1 p1 e1)"
    by (auto simp add: sf_leptonID_and_Iso_fakeable_1l_def bind_err_Inr_iff)
  have c: "sf_leptonID_and_Iso_fakeable_to_loose_1l t1 p1 e1 = 1.0"
    by (simp add: sf_leptonID_and_Iso_fakeable_to_loose_1l_def)
  have d: "sf_leptonID_and_Iso_tight_2l K E t1 p1 e1 t2 p2 e2 = Inr x \<longleftrightarrow>
      (\<exists>l r. sf_leptonID_and_Iso_loose_2l K E t1 p1 e1 t2 p2 e2 = Inr l \<and>
             sf_leptonID_and_Iso_tight_to_loose_2l K E t1 p1 e1 t2 p2 e2 = Inr r \<and> x = l * r)"
    by (auto simp add: sf_leptonID_and_Iso_tight_2l_def bind_err_Inr_iff)
  have e: "sf_leptonID_and_Iso_fakeable_2l K E t1 p1 e1 t2 p2 e2 = Inr x \<longleftrightarrow>
      (\<exists>l. sf_leptonID_and_Iso_loose_2l K E t1 p1 e1 t2 p2 e2 = Inr l \<and>
           x = l * sf_leptonID_and_Iso_fakeable_to_loose_2l t1 p1 e1 t2 p2 e2)"
    by (auto simp add: sf_leptonID_and_Iso_fakeable_2l_def bind_err_Inr_iff)
  have f: "sf_leptonID_and_Iso_fakeable_to_loose_2l t1 p1 e1 t2 p2 e2 = 1.0"
    by (simp add: sf_leptonID_and_Iso_fakeable_to_loose_2l_def)
  have g: "\<exists>l1 r1 l2 r2.
         sf_leptonID_and_Iso_loose_1l K E t1 p1 e1 = Inr l1 \<and>
         sf_leptonID_and_Iso_tight_to_loose_1l K E t1 p1 e1 = Inr r1 \<and>
         sf_leptonID_and_Iso_tight_1l K E t1 p1 e1 = Inr (l1 * r1) \<and>
         sf_leptonID_and_Iso_fakeable_1l K E t1 p1 e1 = Inr (l1 * 1.0) \<and>
         sf_leptonID_and_Iso_loose_2l K E t1 p1 e1 t2 p2 e2 = Inr l2 \<and>
         sf_leptonID_and_Iso_tight_to_loose_2l K E t1 p1 e1 t2 p2 e2 = Inr r2 \<and>
         sf_leptonID_and_Iso_tight_2l K E t1 p1 e1 t2 p2 e2 = Inr (l2 * r2) \<and>
         sf_leptonID_and_Iso_fakeable_2l K E t1 p1 e1 t2 p2 e2 = Inr (l2 * 1.0)"
    if h: "all_loaded E" "recognized K t1" "recognized K t2"
  proof -
    obtain a1 where a1: "lepton_sf_loose K E t1 p1 e1 = Inr a1"
      using lepton_sf_loose_loaded [OF h(1) h(2)] by blast
    obtain a2 where a2: "lepton_sf_loose K E t2 p2 e2 = Inr a2"
      using lepton_sf_loose_loaded [OF h(1) h(3)] by blast
    obtain b1 where b1: "lepton_sf_tight_to_loose K E t1 p1 e1 = Inr b1"
      using lepton_sf_t2l_loaded [OF h(1) h(2)] by blast
    obtain b2 where b2: "lepton_sf_tight_to_loose K E t2 p2 e2 = Inr b2"
      using lepton_sf_t2l_loaded [OF h(1) h(3)] by blast
    have l1: "sf_leptonID_and_Iso_loose_1l K E t1 p1 e1 = Inr a1"
      by (simp add: sf_leptonID_and_Iso_loose_1l_def a1)
    have r1: "sf_leptonID_and_Iso_tight_to_loose_1l K E t1 p1 e1 = Inr b1"
      by (simp add: sf_leptonID_and_Iso_tight_to_loose_1l_def b1)
    have l2: "sf_leptonID_and_Iso_loose_2l K E t1 p1 e1 t2 p2 e2 = Inr (a1 * a2)"
      by (simp add: sf_leptonID_and_Iso_loose_2l_def a1 a2)
    have r2: "sf_leptonID_and_Iso_tight_to_loose_2l K E t1 p1 e1 t2 p2 e2 = Inr (b1 * b2)"
      by (simp add: sf_leptonID_and_Iso_tight_to_loose_2l_def b1 b2)
    have t1: "sf_leptonID_and_Iso_tight_1l K E t1 p1 e1 = Inr (a1 * b1)"
      by (simp add: sf_leptonID_and_Iso_tight_1l_def l1 r1)
    have f1: "sf_leptonID_and_Iso_fakeable_1l K E t1 p1 e1 = Inr (a1 * 1.0)"
      by (simp add: sf_leptonID_and_Iso_fakeable_1l_def l1 sf_leptonID_and_Iso_fakeable_to_loose_1l_def)
    have t2: "sf_leptonID_and_Iso_tight_2l K E t1 p1 e1 t2 p2 e2 = Inr (a1 * a2 * (b1 * b2))"
      by (simp add: sf_leptonID_and_Iso_tight_2l_def l2 r2)
    have f2: "sf_leptonID_and_Iso_fakeable_2l K E t1 p1 e1 t2 p2 e2 = Inr (a1 * a2 * 1.0)"
      by (simp add: sf_leptonID_and_Iso_fakeable_2l_def l2 sf_leptonID_and_Iso_fakeable_to_loose_2l_def)
    from l1 r1 t1 f1 l2 r2 t2 f2 show ?thesis by blast
  qed
  from a b c d e f g show ?thesis by blast
qed

theorem sf_leptonID_and_Iso_tiered_witness:
  "all_loaded E0 \<and> recognized K0 0 \<and> recognized K0 1 \<and>
   (\<exists>l1 r1 l2 r2.
      sf_leptonID_and_Iso_loose_1l K0 E0 0 30 1 = Inr l1 \<and>
      sf_leptonID_and_Iso_tight_to_loose_1l K0 E0 0 30 1 = Inr r1 \<and>
      sf_leptonID_and_Iso_tight_1l K0 E0 0 30 1 = Inr (l1 * r1) \<and>
      sf_leptonID_and_Iso_fakeable_1l K0 E0 0 30 1 = Inr (l1 * 1.0) \<and>
      sf_leptonID_and_Iso_loose_2l K0 E0 0 30 1 1 20 2 = Inr l2 \<and>
      sf_leptonID_and_Iso_tight_to_loose_2l K0 E0 0 30 1 1 20 2 = Inr r2 \<and>
      sf_leptonID_and_Iso_tight_2l K0 E0 0 30 1 1 20 2 = Inr (l2 * r2) \<and>
      sf_leptonID_and_Iso_fakeable_2l K0 E0 0 30 1 1 20 2 = Inr (l2 * 1.0)) \<and>
   sf_leptonID_and_Iso_loose_1l K0 E0 0 30 1 = Inr 6 \<and>
   sf_leptonID_and_Iso_tight_to_loose_1l K0 E0 0 30 1 = Inr 35 \<and>
   sf_leptonID_and_Iso_tight_1l K0 E0 0 30 1 = Inr 210 \<and>
   sf_leptonID_and_Iso_fakeable_1l K0 E0 0 30 1 = Inr 6"
proof -
  have h: "all_loaded E0 \<and> recognized K0 0 \<and> recognized K0 1"
    by (simp add: all_loaded_def E0_def recognized_def K0_def)
  have l: "sf_leptonID_and_Iso_loose_1l K0 E0 0 30 1 = Inr 6"
    by (simp add: sf_leptonID_and_Iso_loose_1l_def lepton_sf_loose_def
        sf_electronID_and_Iso_loose_def E0_def K0_def)
  have r: "sf_leptonID_and_Iso_tight_to_loose_1l K0 E0 0 30 1 = Inr 35"
    by (simp add: sf_leptonID_and_Iso_tight_to_loose_1l_def lepton_sf_tight_to_loose_def
        sf_electronID_and_Iso_tight_to_loose_def E0_def K0_def)
  have t: "sf_leptonID_and_Iso_tight_1l K0 E0 0 30 1 = Inr 210"
    using sf_leptonID_and_Iso_tiered [where K = K0 and E = E0 and ?t1.0 = 0 and ?p1.0 = 30
        and ?e1.0 = 1 and x = 210] l r
    by simp
  have f: "sf_leptonID_and_Iso_fakeable_1l K0 E0 0 30 1 = Inr 6"
    using sf_leptonID_and_Iso_tiered [where K = K0 and E = E0 and ?t1.0 = 0 and ?p1.0 = 30
        and ?e1.0 = 1 and x = 6] l
    by simp
  from h sf_leptonID_and_Iso_tiered [where K = K0 and E = E0 and ?t1.0 = 0 and ?t2.0 = 1
      and ?p1.0 = 30 and ?e1.0 = 1 and ?p2.0 = 20 and ?e2.0 = 2]
  have "\<exists>l1 r1 l2 r2.
      sf_leptonID_and_Iso_loose_1l K0 E0 0 30 1 = Inr l1 \<and>
      sf_leptonID_and_Iso_tight_to_loose_1l K0 E0 0 30 1 = Inr r1 \<and>
      sf_leptonID_and_Iso_tight_1l K0 E0 0 30 1 = Inr (l1 * r1) \<and>
      sf_leptonID_and_Iso_fakeable_1l K0 E0 0 30 1 = Inr (l1 * 1.0) \<and>
      sf_leptonID_and_Iso_loose_2l K0 E0 0 30 1 1 20 2 = Inr l2 \<and>
      sf_leptonID_and_Iso_tight_to_loose_2l K0 E0 0 30 1 1 20 2 = Inr r2 \<and>
      sf_leptonID_and_Iso_tight_2l K0 E0 0 30 1 1 20 2 = Inr (l2 * r2) \<and>
      sf_leptonID_and_Iso_fakeable_2l K0 E0 0 30 1 1 20 2 = Inr (l2 * 1.0)"
    by blast
  with h l r t f show ?thesis by blast
qed

text \<open>
  C2.  Trigger efficiency.  One lepton: 0.99 for an electron with pT above 40, 0.95 for an
  electron at or below 40, 0.98 for a muon, 1.00 for any other type.  Two leptons: for two
  electrons 0.99 when the larger pT is above 40 and 0.95 otherwise, 0.98 for two muons, and
  1.00 for every other pair of types.
\<close>

theorem sf_triggerEff_values:
  assumes "distinct_types K"
  shows "(lepton1_pt > 40 \<longrightarrow> sf_triggerEff_1l K (kElectron K) lepton1_pt lepton1_eta = 0.99) \<and>
         (lepton1_pt \<le> 40 \<longrightarrow> sf_triggerEff_1l K (kElectron K) lepton1_pt lepton1_eta = 0.95) \<and>
         sf_triggerEff_1l K (kMuon K) lepton1_pt lepton1_eta = 0.98 \<and>
         (\<not> recognized K lepton1_type \<longrightarrow> sf_triggerEff_1l K lepton1_type lepton1_pt lepton1_eta = 1.00) \<and>
         (max lepton1_pt lepton2_pt > 40 \<longrightarrow>
            sf_triggerEff_2l K (kElectron K) lepton1_pt lepton1_eta (kElectron K) lepton2_pt lepton2_eta = 0.99) \<and>
         (max lepton1_pt lepton2_pt \<le> 40 \<longrightarrow>
            sf_triggerEff_2l K (kElectron K) lepton1_pt lepton1_eta (kElectron K) lepton2_pt lepton2_eta = 0.95) \<and>
         sf_triggerEff_2l K (kMuon K) lepton1_pt lepton1_eta (kMuon K) lepton2_pt lepton2_eta = 0.98 \<and>
         (\<not> (lepton1_type = kElectron K \<and> lepton2_type = kElectron K) \<and>
          \<not> (lepton1_type = kMuon K \<and> lepton2_type = kMuon K) \<longrightarrow>
            sf_triggerEff_2l K lepton1_type lepton1_pt lepton1_eta lepton2_type lepton2_pt lepton2_eta = 1.00)"
  using assms
  by (auto simp add: sf_triggerEff_1l_def sf_triggerEff_2l_def distinct_types_def recognized_def)

theorem sf_triggerEff_values_witness:
  "distinct_types K0 \<and>
   sf_triggerEff_1l K0 (kElectron K0) 45 0 = 0.99 \<and>
   sf_triggerEff_1l K0 (kMuon K0) 45 0 = 0.98 \<and>
   sf_triggerEff_1l K0 7 45 0 = 1.00 \<and>
   sf_triggerEff_2l K0 (kElectron K0) 45 0 (kElectron K0) 30 0 = 0.99 \<and>
   sf_triggerEff_2l K0 (kMuon K0) 45 0 (kMuon K0) 30 0 = 0.98 \<and>
   sf_triggerEff_2l K0 (kElectron K0) 45 0 (kMuon K0) 30 0 = 1.00"
proof -
  have d: "distinct_types K0"
    by (simp add: distinct_types_def K0_def)
  have u: "\<not> recognized K0 7"
    by (simp add: recognized_def K0_def)
  have m: "\<not> (kElectron K0 = kElectron K0 \<and> kMuon K0 = kElectron K0) \<and>
           \<not> (kElectron K0 = kMuon K0 \<and> kMuon K0 = kMuon K0)"
    by (simp add: K0_def)
  from sf_triggerEff_values [OF d, where ?lepton1_pt = 45 and ?lepton2_pt = 30 and ?lepton1_eta = 0
      and ?lepton2_eta = 0 and ?lepton1_type = 7 and ?lepton2_type = 0] u d
  have a: "sf_triggerEff_1l K0 (kElectron K0) 45 0 = 0.99 \<and>
   sf_triggerEff_1l K0 (kMuon K0) 45 0 = 0.98 \<and>
   sf_triggerEff_1l K0 7 45 0 = 1.00 \<and>
   sf_triggerEff_2l K0 (kElectron K0) 45 0 (kElectron K0) 30 0 = 0.99 \<and>
   sf_triggerEff_2l K0 (kMuon K0) 45 0 (kMuon K0) 30 0 = 0.98"
    by simp
  from sf_triggerEff_values [OF d, where ?lepton1_pt = 45 and ?lepton2_pt = 30 and ?lepton1_eta = 0
      and ?lepton2_eta = 0 and ?lepton1_type = "kElectron K0" and ?lepton2_type = "kMuon K0"] m
  have b: "sf_triggerEff_2l K0 (kElectron K0) 45 0 (kMuon K0) 30 0 = 1.00"
    by blast
  from a b d show ?thesis by blast
qed

text \<open>
  C3.  Charge misidentification.  For an electron the probability is the literal of its
  bin in absolute eta (below 1.479, from 1.479 to below 2.5) and pT (from 10 to below 25,
  from 25 to below 50, from 50 on), and the initial 1.0 outside the bins, returned without
  an error; for a muon it is 1.0.
\<close>

theorem prob_chargeMisId_values:
  assumes "distinct_types K"
  shows "prob_chargeMisId K (kElectron K) lepton_pt lepton_eta =
           Inr (if \<bar>lepton_eta\<bar> < 1.479 then
                  (if 10 \<le> lepton_pt \<and> lepton_pt < 25 then 0.0301
                   else if 25 \<le> lepton_pt \<and> lepton_pt < 50 then 0.0287
                   else if 50 \<le> lepton_pt then 0.0293
                   else 1.0)
                else if 1.479 \<le> \<bar>lepton_eta\<bar> \<and> \<bar>lepton_eta\<bar> < 2.5 then
                  (if 10 \<le> lepton_pt \<and> lepton_pt < 25 then 0.1728
                   else if 25 \<le> lepton_pt \<and> lepton_pt < 50 then 0.1974
                   else if 50 \<le> lepton_pt then 0.3457
                   else 1.0)
                else 1.0) \<and>
         (\<bar>lepton_eta\<bar> \<ge> 2.5 \<or> lepton_pt < 10 \<longrightarrow>
            prob_chargeMisId K (kElectron K) lepton_pt lepton_eta = Inr 1.0) \<and>
         prob_chargeMisId K (kMuon K) lepton_pt lepton_eta = Inr 1.0"
  using assms
  by (simp add: prob_chargeMisId_def distinct_types_def)

theorem prob_chargeMisId_values_witness:
  "distinct_types K0 \<and>
   prob_chargeMisId K0 (kElectron K0) 30 1.0 = Inr 0.0287 \<and>
   prob_chargeMisId K0 (kElectron K0) 60 (-2.0) = Inr 0.3457 \<and>
   prob_chargeMisId K0 (kElectron K0) 60 3.0 = Inr 1.0 \<and>
   prob_chargeMisId K0 (kElectron K0) 5 1.0 = Inr 1.0 \<and>
   prob_chargeMisId K0 (kMuon K0) 30 1.0 = Inr 1.0"
proof -
  have d: "distinct_types K0"
    by (simp add: distinct_types_def K0_def)
  have a: "prob_chargeMisId K0 (kElectron K0) 30 1.0 = Inr 0.0287 \<and>
           prob_chargeMisId K0 (kMuon K0) 30 1.0 = Inr 1.0"
    using prob_chargeMisId_values [OF d, where ?lepton_pt = 30 and ?lepton_eta = "1.0"] by simp
  have b: "prob_chargeMisId K0 (kElectron K0) 60 (-2.0) = Inr 0.3457"
    using prob_chargeMisId_values [OF d, where ?lepton_pt = 60 and ?lepton_eta = "-2.0"] by simp
  have c: "prob_chargeMisId K0 (kElectron K0) 60 3.0 = Inr 1.0"
    using prob_chargeMisId_values [OF d, where ?lepton_pt = 60 and ?lepton_eta = "3.0"] by simp
  have e: "prob_chargeMisId K0 (kElectron K0) 5 1.0 = Inr 1.0"
    using prob_chargeMisId_values [OF d, where ?lepton_pt = 5 and ?lepton_eta = "1.0"] by simp
  from d a b c e show ?thesis by blast
qed

text \<open>
  C4, as amended.  For a lepton type that is neither \<^verbatim>\<open>kElectron\<close> nor \<^verbatim>\<open>kMuon\<close>,
  the loose, tight-to-loose, tight and fakeable scale factors (the two-lepton forms with
  the type in either position) and the charge misidentification probability end in a
  failed assertion, while the trigger efficiency returns 1.00 in both forms and the
  fakeable-to-loose factor returns 1.0.
\<close>

theorem unrecognized_lepton_type:
  assumes "\<not> recognized K t"
  shows "sf_leptonID_and_Iso_loose_1l K E t p e = Inl AssertionFailure \<and>
         sf_leptonID_and_Iso_tight_to_loose_1l K E t p e = Inl AssertionFailure \<and>
         sf_leptonID_and_Iso_tight_1l K E t p e = Inl AssertionFailure \<and>
         sf_leptonID_and_Iso_fakeable_1l K E t p e = Inl AssertionFailure \<and>
         prob_chargeMisId K t p e = Inl AssertionFailure \<and>
         sf_leptonID_and_Iso_loose_2l K E t p e t' p' e' = Inl AssertionFailure \<and>
         sf_leptonID_and_Iso_loose_2l K E t' p' e' t p e = Inl AssertionFailure \<and>
         sf_leptonID_and_Iso_tight_to_loose_2l K E t p e t' p' e' = Inl AssertionFailure \<and>
         sf_leptonID_and_Iso_tight_to_loose_2l K E t' p' e' t p e = Inl AssertionFailure \<and>
         sf_leptonID_and_Iso_tight_2l K E t p e t' p' e' = Inl AssertionFailure \<and>
         sf_leptonID_and_Iso_tight_2l K E t' p' e' t p e = Inl AssertionFailure \<and>
         sf_leptonID_and_Iso_fakeable_2l K E t p e t' p' e' = Inl AssertionFailure \<and>
         sf_leptonID_and_Iso_fakeable_2l K E t' p' e' t p e = Inl AssertionFailure \<and>
         sf_triggerEff_1l K t p e = 1.00 \<and>
         sf_triggerEff_2l K t p e t' p' e' = 1.00 \<and>
         sf_triggerEff_2l K t' p' e' t p e = 1.00 \<and>
         sf_leptonID_and_Iso_fakeable_to_loose_1l t p e = 1.0 \<and>
         sf_leptonID_and_Iso_fakeable_to_loose_2l t p e t' p' e' = 1.0"
proof -
  note u = assms
  have l1: "sf_leptonID_and_Iso_loose_1l K E t p e = Inl AssertionFailure"
    by (simp add: sf_leptonID_and_Iso_loose_1l_def lepton_sf_loose_unrecognized [OF u])
  have r1: "sf_leptonID_and_Iso_tight_to_loose_1l K E t p e = Inl AssertionFailure"
    by (simp add: sf_leptonID_and_Iso_tight_to_loose_1l_def lepton_sf_t2l_unrecognized [OF u])
  have t1: "sf_leptonID_and_Iso_tight_1l K E t p e = Inl AssertionFailure"
    by (simp add: sf_leptonID_and_Iso_tight_1l_def l1)
  have f1: "sf_leptonID_and_Iso_fakeable_1l K E t p e = Inl AssertionFailure"
    by (simp add: sf_leptonID_and_Iso_fakeable_1l_def l1)
  have c: "prob_chargeMisId K t p e = Inl AssertionFailure"
    using u by (simp add: prob_chargeMisId_def recognized_def)
  have l2: "sf_leptonID_and_Iso_loose_2l K E t p e t' p' e' = Inl AssertionFailure"
    "sf_leptonID_and_Iso_loose_2l K E t' p' e' t p e = Inl AssertionFailure"
    using u by (simp_all add: loose_2l_unrecognized)
  have r2: "sf_leptonID_and_Iso_tight_to_loose_2l K E t p e t' p' e' = Inl AssertionFailure"
    "sf_leptonID_and_Iso_tight_to_loose_2l K E t' p' e' t p e = Inl AssertionFailure"
    using u by (simp_all add: t2l_2l_unrecognized)
  have t2: "sf_leptonID_and_Iso_tight_2l K E t p e t' p' e' = Inl AssertionFailure"
    "sf_leptonID_and_Iso_tight_2l K E t' p' e' t p e = Inl AssertionFailure"
    by (simp_all add: sf_leptonID_and_Iso_tight_2l_def l2)
  have f2: "sf_leptonID_and_Iso_fakeable_2l K E t p e t' p' e' = Inl AssertionFailure"
    "sf_leptonID_and_Iso_fakeable_2l K E t' p' e' t p e = Inl AssertionFailure"
    by (simp_all add: sf_leptonID_and_Iso_fakeable_2l_def l2)
  have g: "sf_triggerEff_1l K t p e = 1.00" "sf_triggerEff_2l K t p e t' p' e' = 1.00"
    "sf_triggerEff_2l K t' p' e' t p e = 1.00"
    using u by (simp_all add: sf_triggerEff_1l_def sf_triggerEff_2l_def recognized_def)
  have k: "sf_leptonID_and_Iso_fakeable_to_loose_1l t p e = 1.0"
    "sf_leptonID_and_Iso_fakeable_to_loose_2l t p e t' p' e' = 1.0"
    by (simp_all add: sf_leptonID_and_Iso_fakeable_to_loose_1l_def
        sf_leptonID_and_Iso_fakeable_to_loose_2l_def)
  from l1 r1 t1 f1 c l2 r2 t2 f2 g k show ?thesis by blast
qed

theorem unrecognized_lepton_type_witness:
  "\<not> recognized K0 2 \<and>
   sf_leptonID_and_Iso_tight_1l K0 E0 2 30 1 = Inl AssertionFailure \<and>
   sf_leptonID_and_Iso_fakeable_2l K0 E0 0 30 1 2 30 1 = Inl AssertionFailure \<and>
   prob_chargeMisId K0 2 30 1 = Inl AssertionFailure \<and>
   sf_triggerEff_2l K0 0 30 1 2 30 1 = 1.00"
proof -
  have u: "\<not> recognized K0 2"
    by (simp add: recognized_def K0_def)
  from u unrecognized_lepton_type [OF u, where E = E0 and p = 30 and e = 1 and t' = 0
      and p' = 30 and e' = 1]
  show ?thesis by blast
qed

text \<open>
  The claim as stated fails for the trigger efficiency: for the type 2, which is neither
  enumerator of \<open>K0\<close>, both forms return the number 1.00.
\<close>

theorem unrecognized_lepton_type_counterexample:
  "\<not> recognized K0 2 \<and> sf_triggerEff_1l K0 2 50 0 = 1.00 \<and> sf_triggerEff_2l K0 2 50 0 2 50 0 = 1.00"
  by (simp add: recognized_def K0_def sf_triggerEff_1l_def sf_triggerEff_2l_def)

section \<open>Selectors\<close>

text \<open>
  C5.  The tight hadronic-tau selector with its default thresholds accepts an object
  exactly when all fourteen comparisons hold, each of them inclusive: pt at least 20,
  absEta at most 2.3, the absolute value of dz at most 0.2, decayModeFinding at least 1,
  the four working-point flags and the two raw MVA scores at or above their minima, the two
  raw cut-based isolation values at or below their maxima, antiElectron and antiMuon at or
  above their minima.  The object with every member on its threshold is accepted, and it is
  rejected as soon as one member alone is moved past its threshold.
\<close>

theorem RecoHadTauSelectorTight_default:
  "(RecoHadTauSelectorTight_call RecoHadTauSelectorTight_ctor hadTau \<longleftrightarrow>
      RecoHadTau.pt hadTau \<ge> 20 \<and>
      RecoHadTau.absEta hadTau \<le> 2.3 \<and>
      \<bar>RecoHadTau.dz hadTau\<bar> \<le> 0.2 \<and>
      decayModeFinding hadTau \<ge> 1 \<and>
      id_mva_dR03 hadTau \<ge> -1000 \<and>
      raw_mva_dR03 hadTau \<ge> -1000000 \<and>
      id_mva_dR05 hadTau \<ge> -1000 \<and>
      raw_mva_dR05 hadTau \<ge> -1000000 \<and>
      id_cut_dR03 hadTau \<ge> -1000 \<and>
      raw_cut_dR03 hadTau \<le> 1000000 \<and>
      id_cut_dR05 hadTau \<ge> 1 \<and>
      raw_cut_dR05 hadTau \<le> 1000000 \<and>
      antiElectron hadTau \<ge> -1000 \<and>
      antiMuon hadTau \<ge> -1000) \<and>
   RecoHadTauSelectorTight_call RecoHadTauSelectorTight_ctor boundary_hadTau \<and>
   RecoHadTauSelectorTight_call RecoHadTauSelectorTight_ctor (boundary_hadTau\<lparr>RecoHadTau.dz := -0.2\<rparr>) \<and>
   \<not> RecoHadTauSelectorTight_call RecoHadTauSelectorTight_ctor (boundary_hadTau\<lparr>RecoHadTau.pt := 19.99\<rparr>) \<and>
   \<not> RecoHadTauSelectorTight_call RecoHadTauSelectorTight_ctor (boundary_hadTau\<lparr>RecoHadTau.absEta := 2.31\<rparr>) \<and>
   \<not> RecoHadTauSelectorTight_call RecoHadTauSelectorTight_ctor (boundary_hadTau\<lparr>RecoHadTau.dz := 0.21\<rparr>) \<and>
   \<not> RecoHadTauSelectorTight_call RecoHadTauSelectorTight_ctor (boundary_hadTau\<lparr>RecoHadTau.dz := -0.21\<rparr>) \<and>
   \<not> RecoHadTauSelectorTight_call RecoHadTauSelectorTight_ctor (boundary_hadTau\<lparr>decayModeFinding := 0\<rparr>) \<and>
   \<not> RecoHadTauSelectorTight_call RecoHadTauSelectorTight_ctor (boundary_hadTau\<lparr>id_mva_dR03 := -1001\<rparr>) \<and>
   \<not> RecoHadTauSelectorTight_call RecoHadTauSelectorTight_ctor (boundary_hadTau\<lparr>raw_mva_dR03 := -1000001\<rparr>) \<and>
   \<not> RecoHadTauSelectorTight_call RecoHadTauSelectorTight_ctor (boundary_hadTau\<lparr>id_mva_dR05 := -1001\<rparr>) \<and>
   \<not> RecoHadTauSelectorTight_call RecoHadTauSelectorTight_ctor (boundary_hadTau\<lparr>raw_mva_dR05 := -1000001\<rparr>) \<and>
   \<not> RecoHadTauSelectorTight_call RecoHadTauSelectorTight_ctor (boundary_hadTau\<lparr>id_cut_dR03 := -1001\<rparr>) \<and>
   \<not> RecoHadTauSelectorTight_call RecoHadTauSelectorTight_ctor (boundary_hadTau\<lparr>raw_cut_dR03 := 1000001\<rparr>) \<and>
   \<not> RecoHadTauSelectorTight_call RecoHadTauSelectorTight_ctor (boundary_hadTau\<lparr>id_cut_dR05 := 0\<rparr>) \<and>
   \<not> RecoHadTauSelectorTight_call RecoHadTauSelectorTight_ctor (boundary_hadTau\<lparr>raw_cut_dR05 := 1000001\<rparr>) \<and>
   \<not> RecoHadTauSelectorTight_call RecoHadTauSelectorTight_ctor (boundary_hadTau\<lparr>antiElectron := -1001\<rparr>) \<and>
   \<not> RecoHadTauSelectorTight_call RecoHadTauSelectorTight_ctor (boundary_hadTau\<lparr>antiMuon := -1001\<rparr>)"
proof -
  have general: "RecoHadTauSelectorTight_call RecoHadTauSelectorTight_ctor h \<longleftrightarrow>
      RecoHadTau.pt h \<ge> 20 \<and>
      RecoHadTau.absEta h \<le> 2.3 \<and>
      \<bar>RecoHadTau.dz h\<bar> \<le> 0.2 \<and>
      decayModeFinding h \<ge> 1 \<and>
      id_mva_dR03 h \<ge> -1000 \<and>
      raw_mva_dR03 h \<ge> -1000000 \<and>
      id_mva_dR05 h \<ge> -1000 \<and>
      raw_mva_dR05 h \<ge> -1000000 \<and>
      id_cut_dR03 h \<ge> -1000 \<and>
      raw_cut_dR03 h \<le> 1000000 \<and>
      id_cut_dR05 h \<ge> 1 \<and>
      raw_cut_dR05 h \<le> 1000000 \<and>
      antiElectron h \<ge> -1000 \<and>
      antiMuon h \<ge> -1000" for h
    by (simp add: RecoHadTauSelectorTight_call_def RecoHadTauSelectorTight_ctor_def)
  show ?thesis
    unfolding general by (simp add: boundary_hadTau_def)
qed

text \<open>
  C6.  The fakeable muon selector with its default thresholds returns without an error,
  and accepts a muon exactly when the primary cuts hold (pt at least 10, absEta at most
  2.4, absolute dxy at most 0.05, absolute dz at most 0.1, relIso at most 0.4, sip3d at
  most 8, the loose id flag set; neither the medium id nor the tight charge is asked for)
  and the cuts of its bin hold: with a score mvaRawTTH of at least 0.75, jetPtRatio at
  least 0.30 and jetBtagCSV at most 0.605; below 0.75, jetPtRatio at least -1000 and
  jetBtagCSV at most 0.89.  A score of exactly 0.75 is in the first bin, a score of 0.749
  in the second.
\<close>

theorem RecoMuonSelectorFakeable_default:
  "RecoMuonSelectorFakeable_call RecoMuonSelectorFakeable_ctor muon =
     Inr (RecoMuon.pt muon \<ge> 10 \<and>
          RecoMuon.absEta muon \<le> 2.4 \<and>
          \<bar>RecoMuon.dxy muon\<bar> \<le> 0.05 \<and>
          \<bar>RecoMuon.dz muon\<bar> \<le> 0.1 \<and>
          relIso muon \<le> 0.4 \<and>
          RecoMuon.sip3d muon \<le> 8 \<and>
          passesLooseIdPOG muon \<noteq> 0 \<and>
          (if mvaRawTTH muon \<ge> 0.75
           then jetPtRatio muon \<ge> 0.30 \<and> jetBtagCSV muon \<le> 0.605
           else jetPtRatio muon \<ge> -1000 \<and> jetBtagCSV muon \<le> 0.89)) \<and>
   RecoMuonSelectorFakeable_call RecoMuonSelectorFakeable_ctor (muon\<lparr>mvaRawTTH := 0.75\<rparr>) =
     Inr (RecoMuon.pt muon \<ge> 10 \<and>
          RecoMuon.absEta muon \<le> 2.4 \<and>
          \<bar>RecoMuon.dxy muon\<bar> \<le> 0.05 \<and>
          \<bar>RecoMuon.dz muon\<bar> \<le> 0.1 \<and>
          relIso muon \<le> 0.4 \<and>
          RecoMuon.sip3d muon \<le> 8 \<and>
          passesLooseIdPOG muon \<noteq> 0 \<and>
          jetPtRatio muon \<ge> 0.30 \<and> jetBtagCSV muon \<le> 0.605) \<and>
   RecoMuonSelectorFakeable_call RecoMuonSelectorFakeable_ctor (muon\<lparr>mvaRawTTH := 0.749\<rparr>) =
     Inr (RecoMuon.pt muon \<ge> 10 \<and>
          RecoMuon.absEta muon \<le> 2.4 \<and>
          \<bar>RecoMuon.dxy muon\<bar> \<le> 0.05 \<and>
          \<bar>RecoMuon.dz muon\<bar> \<le> 0.1 \<and>
          relIso muon \<le> 0.4 \<and>
          RecoMuon.sip3d muon \<le> 8 \<and>
          passesLooseIdPOG muon \<noteq> 0 \<and>
          jetPtRatio muon \<ge> -1000 \<and> jetBtagCSV muon \<le> 0.89)"
  by (simp add: RecoMuonSelectorFakeable_call_def RecoMuonSelectorFakeable_ctor_def vector_at_def)

theorem RecoMuonSelectorFakeable_default_witness:
  "RecoMuonSelectorFakeable_call RecoMuonSelectorFakeable_ctor boundary_muon = Inr True \<and>
   RecoMuonSelectorFakeable_call RecoMuonSelectorFakeable_ctor
     (boundary_muon\<lparr>jetPtRatio := 0.2, jetBtagCSV := 0.7\<rparr>) = Inr False \<and>
   RecoMuonSelectorFakeable_call RecoMuonSelectorFakeable_ctor
     (boundary_muon\<lparr>mvaRawTTH := 0.749, jetPtRatio := 0.2, jetBtagCSV := 0.7\<rparr>) = Inr True \<and>
   RecoMuonSelectorFakeable_call RecoMuonSelectorFakeable_ctor
     (boundary_muon\<lparr>mvaRawTTH := 0.749, jetPtRatio := -1000, jetBtagCSV := 0.89\<rparr>) = Inr True \<and>
   RecoMuonSelectorFakeable_call RecoMuonSelectorFakeable_ctor
     (boundary_muon\<lparr>mvaRawTTH := 0.749, jetBtagCSV := 0.9\<rparr>) = Inr False \<and>
   RecoMuonSelectorFakeable_call RecoMuonSelectorFakeable_ctor
     (boundary_muon\<lparr>passesLooseIdPOG := 0\<rparr>) = Inr False \<and>
   RecoMuonSelectorFakeable_call RecoMuonSelectorFakeable_ctor
     (boundary_muon\<lparr>passesMediumIdPOG := 0, tightCharge := 0\<rparr>) = Inr True"
proof -
  have general: "RecoMuonSelectorFakeable_call RecoMuonSelectorFakeable_ctor m =
     Inr (RecoMuon.pt m \<ge> 10 \<and>
          RecoMuon.absEta m \<le> 2.4 \<and>
          \<bar>RecoMuon.dxy m\<bar> \<le> 0.05 \<and>
          \<bar>RecoMuon.dz m\<bar> \<le> 0.1 \<and>
          relIso m \<le> 0.4 \<and>
          RecoMuon.sip3d m \<le> 8 \<and>
          passesLooseIdPOG m \<noteq> 0 \<and>
          (if mvaRawTTH m \<ge> 0.75
           then jetPtRatio m \<ge> 0.30 \<and> jetBtagCSV m \<le> 0.605
           else jetPtRatio m \<ge> -1000 \<and> jetBtagCSV m \<le> 0.89))" for m
    using RecoMuonSelectorFakeable_default [of m] by blast
  show ?thesis
    unfolding general by (simp add: boundary_muon_def)
qed

text \<open>
  C7.  The collection selector returns the pointers of its input on whose objects the
  predicate holds, in the order of the input and as often as they occur there; the result
  is a subsequence of the input.  A predicate that always holds gives the input back, one
  that never holds gives the empty vector.  The store is an argument only: no object is
  copied or written.
\<close>

theorem ParticleCollectionSelector_filter:
  "ParticleCollectionSelector_call selector deref particles =
     filter (\<lambda>particle. selector (deref particle)) particles \<and>
   subseq (ParticleCollectionSelector_call selector deref particles) particles \<and>
   ParticleCollectionSelector_call (\<lambda>obj. True) deref particles = particles \<and>
   ParticleCollectionSelector_call (\<lambda>obj. False) deref particles = []"
  by (simp add: ParticleCollectionSelector_call_def ParticleCollectionSelector_loop_filter)

section \<open>Lepton kinds\<close>

text \<open>
  C8, as amended.  No lepton is both an electron and a muon.  A generic lepton is an
  electron exactly when its PDG id is 11 or -11 and a muon exactly when it is 13 or -13, so
  that exactly one of the two holds when the id is one of these four values, and neither
  holds for any other id.  A \<^verbatim>\<open>RecoMuon\<close> is always a muon and never an electron.
\<close>

theorem lepton_kind_flags:
  "\<not> (is_electron x \<and> is_muon x) \<and>
   (is_electron (Generic l) \<longleftrightarrow> pdg_id l = 11 \<or> pdg_id l = -11) \<and>
   (is_muon (Generic l) \<longleftrightarrow> pdg_id l = 13 \<or> pdg_id l = -13) \<and>
   ((is_electron (Generic l) \<or> is_muon (Generic l)) \<longleftrightarrow> pdg_id l \<in> {11, -11, 13, -13}) \<and>
   ((is_electron (Generic l) \<longleftrightarrow> \<not> is_muon (Generic l)) \<longleftrightarrow> pdg_id l \<in> {11, -11, 13, -13}) \<and>
   is_muon (Muon m) \<and> \<not> is_electron (Muon m)"
proof -
  have excl: "\<not> (is_electron y \<and> is_muon y)" for y
    by (cases y) (simp_all add: RecoLepton_is_electron_def RecoLepton_is_muon_def
        RecoMuon_is_electron_def)
  have e: "is_electron (Generic l) \<longleftrightarrow> pdg_id l = 11 \<or> pdg_id l = -11"
    by (simp add: RecoLepton_is_electron_def abs_Int_eq_11)
  have m: "is_muon (Generic l) \<longleftrightarrow> pdg_id l = 13 \<or> pdg_id l = -13"
    by (simp add: RecoLepton_is_muon_def abs_Int_eq_13)
  have mu: "is_muon (Muon m) \<and> \<not> is_electron (Muon m)"
    by (simp add: RecoMuon_is_electron_def RecoMuon_is_muon_def)
  have x1: "(is_electron (Generic l) \<or> is_muon (Generic l)) \<longleftrightarrow> pdg_id l \<in> {11, -11, 13, -13}"
    unfolding e m by auto
  have x2: "(is_electron (Generic l) \<longleftrightarrow> \<not> is_muon (Generic l)) \<longleftrightarrow> pdg_id l \<in> {11, -11, 13, -13}"
    using excl [of "Generic l"] x1 by blast
  from excl e m x1 x2 mu show ?thesis by blast
qed

text \<open>
  The claim as stated fails for a generic lepton constructed with the PDG id 15: it is
  neither an electron nor a muon.
\<close>

theorem lepton_kind_flags_counterexample:
  "\<not> is_electron (Generic tau_lepton) \<and> \<not> is_muon (Generic tau_lepton)"
  by (simp add: tau_lepton_def RecoLepton_ctor_def RecoLepton_is_electron_def
      RecoLepton_is_muon_def abs_Int_def)

section \<open>Reading hadronic taus\<close>

text \<open>
  C9, as amended.  For a reader whose capacity is the 32 of its constructors,
  \<^verbatim>\<open>read\<close> throws the reader's exception exactly when the stored count is above 32,
  and it fails at all exactly when the count is above 32 or negative.  A count from 0 to 32
  gives exactly that many records, the i-th built from entry i of every array, in the
  order of the indices.  A negative count gives no records: \<^verbatim>\<open>reserve\<close> throws.
\<close>

theorem RecoHadTauReader_read_count:
  assumes "constructed this"
  shows "(RecoHadTauReader_read mk this (Some gInstance) = Inl (CmsException ''RecoHadTauReader'') \<longleftrightarrow>
            nHadTaus gInstance > 32) \<and>
         ((\<exists>err. RecoHadTauReader_read mk this (Some gInstance) = Inl err) \<longleftrightarrow>
            nHadTaus gInstance > 32 \<or> nHadTaus gInstance < 0) \<and>
         (0 \<le> nHadTaus gInstance \<and> nHadTaus gInstance \<le> 32 \<longrightarrow>
            (\<exists>hadTaus. RecoHadTauReader_read mk this (Some gInstance) = Inr hadTaus \<and>
               length hadTaus = nat (nHadTaus gInstance) \<and>
               (\<forall>i < nat (nHadTaus gInstance). hadTaus ! i =
                  mk (hadTau_pt gInstance i) (hadTau_eta gInstance i) (hadTau_phi gInstance i)
                     (hadTau_mass gInstance i) (hadTau_charge gInstance i) (hadTau_dxy gInstance i)
                     (hadTau_dz gInstance i) (hadTau_idDecayMode gInstance i)
                     (hadTau_idDecayModeNewDMs gInstance i) (hadTau_idMVA_dR03 gInstance i)
                     (hadTau_rawMVA_dR03 gInstance i) (hadTau_idMVA_dR05 gInstance i)
                     (hadTau_rawMVA_dR05 gInstance i) (hadTau_idCombIso_dR03 gInstance i)
                     (hadTau_rawCombIso_dR03 gInstance i) (hadTau_idCombIso_dR05 gInstance i)
                     (hadTau_rawCombIso_dR05 gInstance i) (hadTau_idAgainstElec gInstance i)
                     (hadTau_idAgainstMu gInstance i)))) \<and>
         (nHadTaus gInstance < 0 \<longrightarrow>
            RecoHadTauReader_read mk this (Some gInstance) = Inl LengthError)"
proof -
  let ?n = "nHadTaus gInstance"
  let ?r = "RecoHadTauReader_read mk this (Some gInstance)"
  have m: "max_nHadTaus this = 32"
    using assms by (simp add: constructed_def)
  have big: "?r = Inl (CmsException ''RecoHadTauReader'')" if "?n > 32"
    using that m by (simp add: RecoHadTauReader_read_def)
  have neg: "?r = Inl LengthError" if "?n < 0"
    using that m by (simp add: RecoHadTauReader_read_def vector_reserve_def)
  have ok: "?r = Inr (map (RecoHadTauReader_entry mk gInstance) [0 ..< nat ?n])"
    if "0 \<le> ?n" "?n \<le> 32"
    using that m
    by (simp add: RecoHadTauReader_read_def vector_reserve_def RecoHadTauReader_read_loop_map)
  have a: "?r = Inl (CmsException ''RecoHadTauReader'') \<longleftrightarrow> ?n > 32"
  proof
    assume r: "?r = Inl (CmsException ''RecoHadTauReader'')"
    show "?n > 32"
    proof (rule ccontr)
      assume "\<not> ?n > 32"
      then have "?n < 0 \<or> (0 \<le> ?n \<and> ?n \<le> 32)" by arith
      then show False using r neg ok by auto
    qed
  next
    assume "?n > 32" then show "?r = Inl (CmsException ''RecoHadTauReader'')" by (rule big)
  qed
  have b: "(\<exists>err. ?r = Inl err) \<longleftrightarrow> ?n > 32 \<or> ?n < 0"
  proof (cases "?n > 32 \<or> ?n < 0")
    case True
    then show ?thesis using big neg by auto
  next
    case False
    then have "0 \<le> ?n" "?n \<le> 32" by simp_all
    from ok [OF this] False show ?thesis by simp
  qed
  have c: "\<exists>hadTaus. ?r = Inr hadTaus \<and> length hadTaus = nat ?n \<and>
               (\<forall>i < nat ?n. hadTaus ! i =
                  mk (hadTau_pt gInstance i) (hadTau_eta gInstance i) (hadTau_phi gInstance i)
                     (hadTau_mass gInstance i) (hadTau_charge gInstance i) (hadTau_dxy gInstance i)
                     (hadTau_dz gInstance i) (hadTau_idDecayMode gInstance i)
                     (hadTau_idDecayModeNewDMs gInstance i) (hadTau_idMVA_dR03 gInstance i)
                     (hadTau_rawMVA_dR03 gInstance i) (hadTau_idMVA_dR05 gInstance i)
                     (hadTau_rawMVA_dR05 gInstance i) (hadTau_idCombIso_dR03 gInstance i)
                     (hadTau_rawCombIso_dR03 gInstance i) (hadTau_idCombIso_dR05 gInstance i)
                     (hadTau_rawCombIso_dR05 gInstance i) (hadTau_idAgainstElec gInstance i)
                     (hadTau_idAgainstMu gInstance i))"
    if "0 \<le> ?n" "?n \<le> 32"
    unfolding ok [OF that]
    by (simp add: RecoHadTauReader_entry_def)
  from a b c neg show ?thesis by blast
qed

theorem RecoHadTauReader_read_count_witness:
  "constructed (example_reader 0) \<and>
   RecoHadTauReader_read example_ctor (example_reader 0) (Some (example_reader 33)) =
     Inl (CmsException ''RecoHadTauReader'') \<and>
   (\<exists>hadTaus. RecoHadTauReader_read example_ctor (example_reader 0) (Some (example_reader 32)) = Inr hadTaus \<and>
      length hadTaus = 32 \<and> hadTaus ! 31 = (51, -1, 31)) \<and>
   RecoHadTauReader_read example_ctor (example_reader 0) (Some (example_reader 0)) = Inr []"
proof -
  have k: "constructed (example_reader 0)"
    by (simp add: constructed_def example_reader_def)
  have n [simp]: "nHadTaus (example_reader j) = j" for j
    by (simp add: example_reader_def)
  have a: "RecoHadTauReader_read example_ctor (example_reader 0) (Some (example_reader 33)) =
     Inl (CmsException ''RecoHadTauReader'')"
    using RecoHadTauReader_read_count [OF k, where gInstance = "example_reader 33" and mk = example_ctor]
    by simp
  obtain t32 where t32: "RecoHadTauReader_read example_ctor (example_reader 0) (Some (example_reader 32)) = Inr t32"
    "length t32 = 32"
    "\<forall>i<32. t32 ! i = example_ctor (hadTau_pt (example_reader 32) i) (hadTau_eta (example_reader 32) i) (hadTau_phi (example_reader 32) i)
                     (hadTau_mass (example_reader 32) i) (hadTau_charge (example_reader 32) i) (hadTau_dxy (example_reader 32) i)
                     (hadTau_dz (example_reader 32) i) (hadTau_idDecayMode (example_reader 32) i)
                     (hadTau_idDecayModeNewDMs (example_reader 32) i) (hadTau_idMVA_dR03 (example_reader 32) i)
                     (hadTau_rawMVA_dR03 (example_reader 32) i) (hadTau_idMVA_dR05 (example_reader 32) i)
                     (hadTau_rawMVA_dR05 (example_reader 32) i) (hadTau_idCombIso_dR03 (example_reader 32) i)
                     (hadTau_rawCombIso_dR03 (example_reader 32) i) (hadTau_idCombIso_dR05 (example_reader 32) i)
                     (hadTau_rawCombIso_dR05 (example_reader 32) i) (hadTau_idAgainstElec (example_reader 32) i)
                     (hadTau_idAgainstMu (example_reader 32) i)"
    using RecoHadTauReader_read_count [OF k, where gInstance = "example_reader 32" and mk = example_ctor]
    by auto
  from t32(3) have "t32 ! 31 = (51, -1, 31)"
    by (simp add: example_ctor_def example_reader_def)
  with t32 have b: "\<exists>hadTaus. RecoHadTauReader_read example_ctor (example_reader 0) (Some (example_reader 32)) = Inr hadTaus \<and>
      length hadTaus = 32 \<and> hadTaus ! 31 = (51, -1, 31)"
    by blast
  have d: "RecoHadTauReader_read example_ctor (example_reader 0) (Some (example_reader 0)) = Inr []"
    using RecoHadTauReader_read_count [OF k, where gInstance = "example_reader 0" and mk = example_ctor]
    by auto
  from k a b d show ?thesis by blast
qed

text \<open>
  The claim as stated fails for the count -1: it does not exceed 32, and \<^verbatim>\<open>read\<close>
  ends with the \<^verbatim>\<open>std::length_error\<close> of \<^verbatim>\<open>reserve\<close>.
\<close>

theorem RecoHadTauReader_read_count_counterexample:
  "constructed (example_reader (-1)) \<and>
   \<not> nHadTaus (example_reader (-1)) > 32 \<and>
   RecoHadTauReader_read example_ctor (example_reader (-1)) (Some (example_reader (-1))) =
     Inl LengthError"
  by (simp add: example_reader_def constructed_def RecoHadTauReader_read_def vector_reserve_def)

section \<open>Generator-level lepton charge\<close>

text \<open>
  C10.  Constructing a \<^verbatim>\<open>GenLepton\<close> with the PDG id 0 divides by zero.  With any
  other PDG id the constructor returns, and the charge is -1 for a positive id and +1 for a
  negative one.
\<close>

theorem GenLepton_charge:
  "GenLepton_ctor pt' eta' phi' mass' 0 = Inl DivisionByZero \<and>
   (pdgId' \<noteq> 0 \<longrightarrow>
      (\<exists>g. GenLepton_ctor pt' eta' phi' mass' pdgId' = Inr g \<and>
           GenLepton.pdgId g = pdgId' \<and>
           (0 < sint pdgId' \<longrightarrow> sint (charge g) = - 1) \<and>
           (sint pdgId' < 0 \<longrightarrow> sint (charge g) = 1)))"
proof -
  have z: "GenLepton_ctor pt' eta' phi' mass' 0 = Inl DivisionByZero"
    by (simp add: GenLepton_ctor_def abs_Int_def)
  have nz: "\<exists>g. GenLepton_ctor pt' eta' phi' mass' pdgId' = Inr g \<and>
           GenLepton.pdgId g = pdgId' \<and>
           (0 < sint pdgId' \<longrightarrow> sint (charge g) = - 1) \<and>
           (sint pdgId' < 0 \<longrightarrow> sint (charge g) = 1)" if "pdgId' \<noteq> 0"
    using that by (simp add: GenLepton_ctor_def abs_Int_eq_0 charge_of_positive charge_of_negative)
  from z nz show ?thesis by blast
qed

theorem GenLepton_charge_witness:
  "(11 :: 32 word) \<noteq> 0 \<and> (- 13 :: 32 word) \<noteq> 0 \<and>
   (\<exists>g. GenLepton_ctor 25 0 0 0 11 = Inr g \<and> GenLepton.pdgId g = 11 \<and> sint (charge g) = - 1) \<and>
   (\<exists>g. GenLepton_ctor 25 0 0 0 (- 13) = Inr g \<and> GenLepton.pdgId g = - 13 \<and> sint (charge g) = 1) \<and>
   (\<exists>g. GenLepton_ctor 25 0 0 0 (- 2147483648) = Inr g \<and> sint (charge g) = 1)"
proof -
  have a: "\<exists>g. GenLepton_ctor 25 0 0 0 11 = Inr g \<and> GenLepton.pdgId g = 11 \<and> sint (charge g) = - 1"
    using GenLepton_charge [where pdgId' = 11 and pt' = 25 and eta' = 0 and phi' = 0 and mass' = 0]
    by simp
  have b: "\<exists>g. GenLepton_ctor 25 0 0 0 (- 13) = Inr g \<and> GenLepton.pdgId g = - 13 \<and> sint (charge g) = 1"
    using GenLepton_charge [where pdgId' = "- 13" and pt' = 25 and eta' = 0 and phi' = 0 and mass' = 0]
    by simp
  have c: "\<exists>g. GenLepton_ctor 25 0 0 0 (- 2147483648) = Inr g \<and> sint (charge g) = 1"
    using GenLepton_charge [where pdgId' = "- 2147483648" and pt' = 25 and eta' = 0 and phi' = 0 and mass' = 0]
    by auto
  from a b c show ?thesis by simp
qed

end
